theory Spec2Isabelle
  imports
    Complex_Main
    "HOL-Library.Char_ord"
    "HOL-Library.List_Lexorder"
    "HOL-Library.Option_ord"
    "HOL-Library.Product_Lexorder"
    "HOL-Library.Multiset"
begin

section \<open>JavaScript numbers\<close>

text \<open>
  A JavaScript number is an IEEE 754 double: a finite value, an infinity or
  \<open>NaN\<close>. A finite double is the rational it stands for; the sign of zero is not
  kept, since no operation used below tells the two zeros apart. \<open>roundToDouble\<close>
  is the rounding of the format, to the nearest double with ties to the even
  significand: 53 bits of significand, binary exponents from -1022 (below which the
  spacing stays at \<open>2^-1074\<close>) to 1023 (above which the result is an infinity). A
  decimal literal of the source and the result of an arithmetic operation are
  rounded this way. \<open>binaryExponent n x\<close> is the \<open>e\<close> with
  \<open>2^e \<le> x < 2^(e+1)\<close>, searched for at most \<open>n\<close> steps up or down; 2200
  steps reach past both ends of the exponent range.
\<close>

datatype double = Finite rat | PosInf | NegInf | NaN

definition pow2 :: "int \<Rightarrow> rat" where
  "pow2 k = (if 0 \<le> k then 2 ^ nat k else 1 / 2 ^ nat (- k))"

fun binaryExponent :: "nat \<Rightarrow> rat \<Rightarrow> int" where
  "binaryExponent 0 x = 0"
| "binaryExponent (Suc n) x =
     (if 2 \<le> x then binaryExponent n (x / 2) + 1
      else if x < 1 then binaryExponent n (2 * x) - 1
      else 0)"

definition roundHalfEven :: "rat \<Rightarrow> int" where
  "roundHalfEven r =
     (let f = \<lfloor>r\<rfloor>; d = r - of_int f
      in if d < 1 / 2 then f else if 1 / 2 < d then f + 1 else if even f then f else f + 1)"

definition roundToDouble :: "rat \<Rightarrow> double" where
  "roundToDouble x =
     (if x = 0 then Finite 0
      else
        let a = \<bar>x\<bar>;
            e = max (binaryExponent 2200 a) (- 1022);
            q = pow2 (e - 52);
            n = roundHalfEven (a / q)
        in if 1024 \<le> e \<or> (e = 1023 \<and> n = 2 ^ 53)
           then (if x < 0 then NegInf else PosInf)
           else Finite (if x < 0 then - (of_int n * q) else of_int n * q))"

text \<open>\<open>a - b\<close>, \<open>a <= b\<close> and \<open>Math.ceil\<close> on doubles.\<close>

fun jsMinus :: "double \<Rightarrow> double \<Rightarrow> double" where
  "jsMinus (Finite a) (Finite b) = roundToDouble (a - b)"
| "jsMinus NaN _ = NaN"
| "jsMinus _ NaN = NaN"
| "jsMinus PosInf PosInf = NaN"
| "jsMinus NegInf NegInf = NaN"
| "jsMinus PosInf _ = PosInf"
| "jsMinus NegInf _ = NegInf"
| "jsMinus (Finite a) PosInf = NegInf"
| "jsMinus (Finite a) NegInf = PosInf"

fun jsLessEq :: "double \<Rightarrow> double \<Rightarrow> bool" where
  "jsLessEq NaN _ = False"
| "jsLessEq _ NaN = False"
| "jsLessEq (Finite a) (Finite b) = (a \<le> b)"
| "jsLessEq NegInf _ = True"
| "jsLessEq _ PosInf = True"
| "jsLessEq _ _ = False"

fun mathCeil :: "double \<Rightarrow> double" where
  "mathCeil (Finite a) = Finite (of_int \<lceil>a\<rceil>)"
| "mathCeil d = d"

section \<open>Data model\<close>

text \<open>
  The subscription documents follow the schema of models/subscription.js (the version
  with the QUEUED status). Document ids are natural numbers, dates are milliseconds
  since the epoch. Counters and positions are of type \<^typ>\<open>int\<close>, prices and amounts are
  of type \<^typ>\<open>double\<close>.
  A field that a document may lack is an \<^typ>\<open>'a option\<close>, \<open>None\<close> standing for
  \<open>undefined\<close> and \<open>null\<close> alike.

  \<open>queuePosition\<close> is declared \<open>type: String\<close> in the schema, so a stored position is
  a string. \<open>cancelledAt\<close> and \<open>cancellationReason\<close> are the properties the
  subscription controller assigns on the document.
\<close>

type_synonym objectId = nat
type_synonym date = int

datatype status = PENDING | QUEUED | ACTIVE | EXPIRED | CANCELLED | APPROVED

record subscription =
  sub_id :: objectId
  user :: objectId
  imei :: string
  plan :: string
  price :: double
  queuePosition :: "string option"
  startDate :: "date option"
  endDate :: "date option"
  status :: status
  reviewedBy :: "objectId option"
  reviewedAt :: "date option"
  adminNotes :: "string option"
  priority :: int
  createdAt :: date
  cancelledAt :: "date option"
  cancellationReason :: "string option"

record userDoc =
  usr_id :: objectId
  username :: string
  email :: string

record device =
  dev_id :: objectId
  dev_user :: "objectId option"
  dev_imei :: string
  totpSecret :: string
  deviceName :: string
  isOnboarded :: bool

text \<open>
  The transaction documents carry the fields that the controllers write when they
  build a \<open>new Transaction({...})\<close>. The metadata bag is an association list.
\<close>

datatype json = JStr string | JNum double | JBool bool | JDate date | JNull | JObj string

type_synonym metadata = "(string \<times> json) list"

record transaction =
  tx_id :: objectId
  tx_user :: objectId
  tx_subscription :: objectId
  tx_device :: "objectId option"
  transactionId :: string
  tx_type :: string
  amount :: double
  tx_plan :: string
  tx_status :: string
  paymentMethod :: "string option"
  processedBy :: "objectId option"
  processedAt :: "date option"
  previousTransaction :: "objectId option"
  relatedTransactions :: "objectId list"
  tx_metadata :: metadata
  tx_adminNotes :: string
  subscriptionPeriod :: "(date option \<times> date option) option"
  completedAt :: "date option"
  tx_createdAt :: date

record store =
  users :: "userDoc list"
  devices :: "device list"
  subscriptions :: "subscription list"
  transactions :: "transaction list"

text \<open>
  A handler either answers or forwards an error to \<open>next(err)\<close>. The handlers
  below make their writes outside any store transaction, so what was written before
  a throw stays written: every handler returns the store it leaves behind together
  with its answer.
\<close>

datatype error =
    CustomError nat string
  | TypeError string
  | MongoServerError string
  | ValidationError string

type_synonym 'a outcome = "(error + 'a) \<times> store"

section \<open>utils/helpers.js\<close>

text \<open>
  \<open>SUBSCRIPTION_PRICES[subscriptionType] || 29.99\<close>. The table is an object
  literal, so the lookup of a key that the table does not have goes on to
  \<open>Object.prototype\<close>: for one of its property names the lookup gives a function
  (for \<open>__proto__\<close> the prototype object), which is truthy and is what
  \<open>getSubscriptionPrice\<close> returns. For any other key the lookup gives
  \<open>undefined\<close> and the default applies. The argument is the property key, a
  string. Where a number is needed, a function or an object converts to \<open>NaN\<close>.
\<close>

definition SUBSCRIPTION_PRICES :: "string \<rightharpoonup> double" where
  "SUBSCRIPTION_PRICES = [
     ''mobile-v4-basic'' \<mapsto> roundToDouble 29.99,
     ''mobile-v4-premium'' \<mapsto> roundToDouble 49.99,
     ''mobile-v4-enterprise'' \<mapsto> roundToDouble 99.99,
     ''mobile-v5-basic'' \<mapsto> roundToDouble 39.99,
     ''mobile-v5-premium'' \<mapsto> roundToDouble 59.99,
     ''full-suite-basic'' \<mapsto> roundToDouble 79.99,
     ''full-suite-premium'' \<mapsto> roundToDouble 149.99]"

definition objectPrototypeKeys :: "string list" where
  "objectPrototypeKeys =
     [''constructor'', ''__defineGetter__'', ''__defineSetter__'', ''hasOwnProperty'',
      ''__lookupGetter__'', ''__lookupSetter__'', ''isPrototypeOf'',
      ''propertyIsEnumerable'', ''toString'', ''valueOf'', ''__proto__'',
      ''toLocaleString'']"

datatype jsvalue = JSNumber double | JSObject string

definition getSubscriptionPrice :: "string \<Rightarrow> jsvalue" where
  "getSubscriptionPrice subscriptionType =
     (case SUBSCRIPTION_PRICES subscriptionType of
        Some p \<Rightarrow> JSNumber p
      | None \<Rightarrow>
          if subscriptionType \<in> set objectPrototypeKeys then JSObject subscriptionType
          else JSNumber (roundToDouble 29.99))"

definition numberOf :: "jsvalue \<Rightarrow> double" where
  "numberOf v = (case v of JSNumber d \<Rightarrow> d | JSObject _ \<Rightarrow> NaN)"

definition jsonOf :: "jsvalue \<Rightarrow> json" where
  "jsonOf v = (case v of JSNumber d \<Rightarrow> JNum d | JSObject k \<Rightarrow> JObj k)"

text \<open>
  \<open>getSubscriptionDuration\<close> is applied below to the plan of a stored
  subscription, which the creation of a subscription checks against the seven plan
  names, and in \<open>upgradeSubscription\<close> to a new plan for which the price lookup has
  given a number; for these keys its lookup gives the number of the table or the
  default.
\<close>

definition SUBSCRIPTION_TYPES :: "string \<rightharpoonup> int" where
  "SUBSCRIPTION_TYPES = [
     ''mobile-v4-basic'' \<mapsto> 30,
     ''mobile-v4-premium'' \<mapsto> 60,
     ''mobile-v4-enterprise'' \<mapsto> 90,
     ''mobile-v5-basic'' \<mapsto> 30,
     ''mobile-v5-premium'' \<mapsto> 60,
     ''full-suite-basic'' \<mapsto> 60,
     ''full-suite-premium'' \<mapsto> 90]"

definition getSubscriptionDuration :: "string \<Rightarrow> int" where
  "getSubscriptionDuration subscriptionType =
     (case SUBSCRIPTION_TYPES subscriptionType of Some d \<Rightarrow> d | None \<Rightarrow> 30)"

definition msPerDay :: int where
  "msPerDay = 24 * 60 * 60 * 1000"

section \<open>JavaScript strings and numbers\<close>

text \<open>
  \<open>Number.prototype.toString\<close> on an integer, \<open>parseInt\<close> with no radix,
  \<open>String.prototype.trim\<close> and the conversion of a string to a number that
  \<open>number < string\<close> performs. Characters are bytes; white space is the ASCII
  white space. \<open>None\<close> is \<open>NaN\<close>. The string-to-number conversion covers the
  integer numerals (an optional sign and decimal digits) and the empty string; a
  string with a fraction or an exponent, which no code path writes into
  \<open>queuePosition\<close>, is \<open>NaN\<close> here.
\<close>

definition digitChar :: "nat \<Rightarrow> char" where
  "digitChar d = char_of (48 + d)"

fun natToString :: "nat \<Rightarrow> string" where
  "natToString n =
     (if n < 10 then [digitChar n] else natToString (n div 10) @ [digitChar (n mod 10)])"

declare natToString.simps [simp del]

definition toString :: "int \<Rightarrow> string" where
  "toString n = (if n < 0 then CHR ''-'' # natToString (nat (- n)) else natToString (nat n))"

definition isWhiteSpace :: "char \<Rightarrow> bool" where
  "isWhiteSpace c \<longleftrightarrow> (of_char c :: nat) \<in> {9, 10, 11, 12, 13, 32}"

definition trim :: "string \<Rightarrow> string" where
  "trim s = rev (dropWhile isWhiteSpace (rev (dropWhile isWhiteSpace s)))"

definition isDigit :: "char \<Rightarrow> bool" where
  "isDigit c \<longleftrightarrow> 48 \<le> (of_char c :: nat) \<and> (of_char c :: nat) \<le> 57"

definition digitVal :: "char \<Rightarrow> nat" where
  "digitVal c = of_char c - 48"

definition digitsValue :: "string \<Rightarrow> nat" where
  "digitsValue ds = foldl (\<lambda>a c. 10 * a + digitVal c) 0 ds"

definition hexVal :: "char \<Rightarrow> nat option" where
  "hexVal c =
     (let k = (of_char c :: nat)
      in if 48 \<le> k \<and> k \<le> 57 then Some (k - 48)
         else if 97 \<le> k \<and> k \<le> 102 then Some (k - 87)
         else if 65 \<le> k \<and> k \<le> 70 then Some (k - 55)
         else None)"

definition parseDigits :: "nat \<Rightarrow> (char \<Rightarrow> nat option) \<Rightarrow> string \<Rightarrow> nat option" where
  "parseDigits radix val s =
     (let ds = takeWhile (\<lambda>c. val c \<noteq> None) s
      in if ds = [] then None
         else Some (foldl (\<lambda>a c. radix * a + the (val c)) 0 ds))"

definition parseInt :: "string \<Rightarrow> int option" where
  "parseInt s =
     (let t = dropWhile isWhiteSpace s;
          neg = (case t of [] \<Rightarrow> False | c # _ \<Rightarrow> c = CHR ''-'');
          u = (case t of [] \<Rightarrow> [] | c # r \<Rightarrow> if c = CHR ''-'' \<or> c = CHR ''+'' then r else t);
          hex = (case u of c # x # _ \<Rightarrow> c = CHR ''0'' \<and> (x = CHR ''x'' \<or> x = CHR ''X'')
                 | _ \<Rightarrow> False);
          m = (if hex then parseDigits 16 hexVal (drop 2 u)
               else parseDigits 10 (\<lambda>c. if isDigit c then Some (digitVal c) else None) u)
      in map_option (\<lambda>k. if neg then - int k else int k) m)"

definition toNumber :: "string \<Rightarrow> int option" where
  "toNumber s =
     (let t = trim s;
          neg = (case t of [] \<Rightarrow> False | c # _ \<Rightarrow> c = CHR ''-'');
          u = (case t of [] \<Rightarrow> [] | c # r \<Rightarrow> if c = CHR ''-'' \<or> c = CHR ''+'' then r else t)
      in if t = [] then Some 0
         else if u \<noteq> [] \<and> list_all isDigit u
         then Some (if neg then - int (digitsValue u) else int (digitsValue u))
         else None)"

section \<open>Store primitives\<close>

text \<open>
  \<open>Model.findOne(filter)\<close> gives the first document that matches, and with a
  \<open>sort\<close> the first one of the sorted matches (\<open>sortDesc\<close> for a key sorted
  with \<open>-1\<close>). \<open>doc.save()\<close> of a loaded document replaces the stored document of
  the same \<open>_id\<close>. Schema validation on save is not modelled: a save succeeds.
\<close>

definition findOne :: "('a \<Rightarrow> bool) \<Rightarrow> 'a list \<Rightarrow> 'a option" where
  "findOne flt docs = find flt docs"

definition sortDesc :: "('a \<Rightarrow> 'k::linorder) \<Rightarrow> 'a list \<Rightarrow> 'a list" where
  "sortDesc key docs = rev (sort_key key docs)"

definition findById :: "objectId \<Rightarrow> subscription list \<Rightarrow> subscription option" where
  "findById i subs = findOne (\<lambda>s. sub_id s = i) subs"

definition save :: "subscription \<Rightarrow> subscription list \<Rightarrow> subscription list" where
  "save doc subs = map (\<lambda>s. if sub_id s = sub_id doc then doc else s) subs"

definition saveSubscription :: "subscription \<Rightarrow> store \<Rightarrow> store" where
  "saveSubscription doc st = st\<lparr>subscriptions := save doc (subscriptions st)\<rparr>"

text \<open>
  \<open>populate("user", ...)\<close> replaces the reference by the user document, or by
  \<open>null\<close> when no user has that id.
\<close>

definition populateUser :: "store \<Rightarrow> subscription \<Rightarrow> userDoc option" where
  "populateUser st s = findOne (\<lambda>u. usr_id u = user s) (users st)"

text \<open>
  Modelled from the spec: models/transaction is not among the sources. The spec's
  ledger \<open>record\<close> operation "appends a new Transaction": the \<open>save()\<close> of a new
  transaction appends it, under an \<open>_id\<close> that no entry of the ledger has. The
  \<open>save()\<close> of a transaction that was loaded from the ledger replaces the entry of
  the same \<open>_id\<close>.
\<close>

definition newObjectId :: "transaction list \<Rightarrow> objectId" where
  "newObjectId txs = Suc (foldr max (map tx_id txs) 0)"

definition insertTransaction :: "transaction \<Rightarrow> store \<Rightarrow> store" where
  "insertTransaction t st = st\<lparr>transactions := transactions st @ [t]\<rparr>"

definition saveTransaction :: "transaction \<Rightarrow> store \<Rightarrow> store" where
  "saveTransaction t st =
     st\<lparr>transactions := map (\<lambda>x. if tx_id x = tx_id t then t else x) (transactions st)\<rparr>"

text \<open>
  \<open>new Transaction({...})\<close> with empty defaults for the fields a controller leaves
  out. The value of \<open>Transaction.generateTransactionId()\<close> comes from outside
  (\<open>genId\<close>).
\<close>

definition newTransaction ::
  "objectId \<Rightarrow> string \<Rightarrow> date \<Rightarrow> objectId \<Rightarrow> objectId \<Rightarrow> string \<Rightarrow> double \<Rightarrow> string \<Rightarrow> string
     \<Rightarrow> metadata \<Rightarrow> transaction" where
  "newTransaction newId genId now u sid ty amt pl st md =
     \<lparr>tx_id = newId, tx_user = u, tx_subscription = sid, tx_device = None,
      transactionId = genId, tx_type = ty, amount = amt, tx_plan = pl, tx_status = st,
      paymentMethod = None, processedBy = None, processedAt = None,
      previousTransaction = None, relatedTransactions = [], tx_metadata = md,
      tx_adminNotes = [], subscriptionPeriod = None, completedAt = None,
      tx_createdAt = now\<rparr>"

section \<open>models/subscription.js: the queue statics\<close>

text \<open>
  The queue of a device is the set of its subscriptions with status QUEUED or
  PENDING. \<open>getNextQueuePosition\<close> sorts the queue by \<open>queuePosition\<close>, descending.
  The field is a string, and the store orders strings byte by byte (a document
  without the field sorts below every string): this is the order of
  \<^typ>\<open>string option\<close>.
\<close>

definition inQueue :: "string \<Rightarrow> subscription \<Rightarrow> bool" where
  "inQueue i s \<longleftrightarrow> imei s = i \<and> (status s = QUEUED \<or> status s = PENDING)"

definition getNextQueuePosition :: "string \<Rightarrow> subscription list \<Rightarrow> string" where
  "getNextQueuePosition i subs =
     (case findOne (\<lambda>_. True) (sortDesc queuePosition (filter (inQueue i) subs)) of
        None \<Rightarrow> ''1''
      | Some lastQueued \<Rightarrow>
          (case queuePosition lastQueued of
             None \<Rightarrow> ''1''
           | Some qp \<Rightarrow>
               if qp = [] then ''1''
               else let lastPosition = (case parseInt qp of None \<Rightarrow> 0 | Some n \<Rightarrow> n)
                    in toString (lastPosition + 1)))"

fun reorderLoop :: "nat \<Rightarrow> subscription list \<Rightarrow> subscription list \<Rightarrow> subscription list" where
  "reorderLoop i [] subs = subs"
| "reorderLoop i (q # queuedSubs) subs =
     reorderLoop (Suc i) queuedSubs
       (save (q\<lparr>queuePosition := Some (toString (int i + 1))\<rparr>) subs)"

definition reorderDeviceQueue :: "string \<Rightarrow> subscription list \<Rightarrow> subscription list \<times> nat" where
  "reorderDeviceQueue i subs =
     (let queuedSubs = sort_key (\<lambda>s. (- priority s, createdAt s)) (filter (inQueue i) subs)
      in (reorderLoop 0 queuedSubs subs, length queuedSubs))"

definition hasActiveSubscription :: "string \<Rightarrow> subscription list \<Rightarrow> bool" where
  "hasActiveSubscription i subs \<longleftrightarrow>
     length (filter (\<lambda>s. imei s = i \<and> status s = ACTIVE) subs) > 0"

section \<open>controllers/subscriptionController.js\<close>

text \<open>
  \<open>transaction.updateStatus\<close> is a method of the absent transaction model: the
  handlers take it as the parameter \<open>updateStatus\<close>, which maps the transaction,
  the new status, the \<open>completedAt\<close> date and the ledger to the ledger it leaves;
  like a save, it is taken to succeed. The clock is read once per request
  (\<open>now\<close>).
\<close>

type_synonym updateStatusFn =
  "transaction \<Rightarrow> string \<Rightarrow> date \<Rightarrow> transaction list \<Rightarrow> transaction list"

record upgradeResponse =
  up_subscription :: subscription
  up_transaction :: transaction
  proratedAmount :: double

definition remainingDays :: "date option \<Rightarrow> date \<Rightarrow> double" where
  "remainingDays e now =
     (case e of
        None \<Rightarrow> NaN
      | Some d \<Rightarrow> mathCeil (roundToDouble (of_int (d - now) / of_int msPerDay)))"

text \<open>
  \<open>upgradeSubscription\<close>. The new price is compared with the stored price of the
  subscription. When the new plan is a property name of \<open>Object.prototype\<close>, the
  new price is not a number: the comparison is false, the amount is \<open>NaN\<close>, and
  the \<open>save()\<close> of the subscription rejects the value assigned to its Number path
  \<open>price\<close>. Whether the \<open>save()\<close> of the transaction accepts the \<open>NaN\<close> amount
  depends on the absent transaction model; it is appended like any other.
\<close>

definition upgradeSubscription ::
  "updateStatusFn \<Rightarrow> date \<Rightarrow> string \<Rightarrow> objectId \<Rightarrow> string \<Rightarrow> objectId \<Rightarrow> store
     \<Rightarrow> upgradeResponse outcome" where
  "upgradeSubscription updateStatus now genId subscriptionId newPlan userId st =
     (case findOne (\<lambda>s. sub_id s = subscriptionId \<and> user s = userId \<and> status s = ACTIVE)
             (subscriptions st) of
        None \<Rightarrow> (Inl (CustomError 404 ''Active subscription not found''), st)
      | Some subscription \<Rightarrow>
          let oldPlan = plan subscription;
              oldPrice = price subscription;
              newPrice = getSubscriptionPrice newPlan
          in if jsLessEq (numberOf newPrice) oldPrice
             then (Inl (CustomError 400 ''New plan must be higher tier''), st)
             else
               let prorated = jsMinus (numberOf newPrice) oldPrice;
                   tx = newTransaction (newObjectId (transactions st)) genId now userId
                          subscriptionId
                          ''SUBSCRIPTION_UPGRADED'' prorated newPlan ''PENDING''
                          [(''oldPlan'', JStr oldPlan), (''newPlan'', JStr newPlan),
                           (''proratedDays'', JNum (remainingDays (endDate subscription) now)),
                           (''fullNewPrice'', jsonOf newPrice), (''oldPrice'', JNum oldPrice)];
                   st1 = insertTransaction tx st
               in (case startDate subscription of
                    None \<Rightarrow>
                      (Inl (TypeError ''Cannot read properties of undefined (reading getTime)''),
                       st1)
                  | Some sd \<Rightarrow>
                      (case newPrice of
                         JSObject _ \<Rightarrow>
                           (Inl (ValidationError ''Cast to Number failed at path price''), st1)
                       | JSNumber p \<Rightarrow>
                           let newDuration = getSubscriptionDuration newPlan;
                               subscription' = subscription\<lparr>plan := newPlan, price := p,
                                                 endDate := Some (sd + newDuration * msPerDay)\<rparr>;
                               st2 = saveSubscription subscription' st1;
                               st3 = st2\<lparr>transactions :=
                                       updateStatus tx ''COMPLETED'' now (transactions st2)\<rparr>;
                               response = \<lparr>up_subscription = subscription',
                                           up_transaction = tx, proratedAmount = prorated\<rparr>
                           in (Inr response, st3))))"

record renewResponse =
  rn_subscription :: subscription
  rn_transaction :: transaction

definition renewSubscription ::
  "updateStatusFn \<Rightarrow> date \<Rightarrow> string \<Rightarrow> objectId \<Rightarrow> objectId \<Rightarrow> store
     \<Rightarrow> renewResponse outcome" where
  "renewSubscription updateStatus now genId subscriptionId userId st =
     (case findOne (\<lambda>s. sub_id s = subscriptionId \<and> user s = userId \<and> status s = EXPIRED)
             (subscriptions st) of
        None \<Rightarrow> (Inl (CustomError 404 ''Expired subscription not found''), st)
      | Some subscription \<Rightarrow>
          let tx = newTransaction (newObjectId (transactions st)) genId now userId
                     subscriptionId ''SUBSCRIPTION_ACTIVATED'' (price subscription) (plan subscription)
                     ''PENDING'' [];
              st1 = insertTransaction tx st;
              st2 = st1\<lparr>transactions := updateStatus tx ''COMPLETED'' now (transactions st1)\<rparr>;
              duration = getSubscriptionDuration (plan subscription);
              subscription' = subscription\<lparr>status := ACTIVE, startDate := Some now,
                                endDate := Some (now + duration * msPerDay),
                                cancelledAt := None, cancellationReason := None\<rparr>;
              response = \<lparr>rn_subscription = subscription', rn_transaction = tx\<rparr>
          in (Inr response, saveSubscription subscription' st2))"

text \<open>
  The self-service activation with a one-time code. \<open>speakeasy.totp.verify\<close> is
  the parameter \<open>totpVerify\<close>, applied to the secret of the device, the code of
  the request and the window, which the handler sets to 2. A field of the request
  body is missing when it is absent or empty. The handler reads the duration from
  \<open>subscription.subscriptionType\<close>; the schema has no such path (the plan is in
  \<open>plan\<close>), so the read gives \<open>undefined\<close>. \<open>findByIdAndUpdate\<close> without
  \<open>new: true\<close> gives the document as it was before the update. The handler's two
  updates run outside its session and stay written. \<open>setDate(getDate() + n)\<close> adds
  \<open>n\<close> days of 24 hours (a server clock without daylight saving).
\<close>

definition subscriptionType :: "subscription \<Rightarrow> string option" where
  "subscriptionType s = None"

definition missing :: "string option \<Rightarrow> bool" where
  "missing v \<longleftrightarrow> (case v of None \<Rightarrow> True | Some x \<Rightarrow> x = [])"

record activateResponse =
  ac_subscription :: subscription
  ac_duration :: string
  ac_subscriptionType :: "string option"

definition activateSubscription ::
  "(string \<Rightarrow> string \<Rightarrow> nat \<Rightarrow> bool) \<Rightarrow> date \<Rightarrow> objectId option \<Rightarrow> string option \<Rightarrow> string option
     \<Rightarrow> objectId \<Rightarrow> store \<Rightarrow> activateResponse outcome" where
  "activateSubscription totpVerify now subscriptionId imeiArg totpCode userId st =
     (case (subscriptionId, imeiArg, totpCode) of
        (Some sid, Some im, Some code) \<Rightarrow>
          if im = [] \<or> code = []
          then (Inl (CustomError 400 ''Please provide all required fields''), st)
          else
            (case findById sid (subscriptions st) of
               None \<Rightarrow> (Inl (CustomError 404 ''Subscription not found''), st)
             | Some subscription \<Rightarrow>
                 if user subscription \<noteq> userId
                 then (Inl (CustomError 403 ''Unauthorized access to subscription''), st)
                 else if status subscription \<noteq> QUEUED
                 then (Inl (CustomError 400 ''Subscription not queued''), st)
                 else if imei subscription \<noteq> im
                 then (Inl (CustomError 400 ''Invalid IMEI''), st)
                 else
                   (case findOne (\<lambda>d. dev_user d = Some userId \<and> dev_imei d = im)
                           (devices st) of
                      None \<Rightarrow> (Inl (CustomError 404 ''Device not found''), st)
                    | Some dev \<Rightarrow>
                        if \<not> totpVerify (totpSecret dev) code 2
                        then (Inl (CustomError 400 ''Invalid OTP''), st)
                        else
                          let durationInDays =
                                (case subscriptionType subscription of
                                   None \<Rightarrow> None
                                 | Some t \<Rightarrow> SUBSCRIPTION_TYPES t);
                              duration = (case durationInDays of None \<Rightarrow> 30 | Some d \<Rightarrow> d);
                              end = now + duration * msPerDay;
                              st1 = st\<lparr>subscriptions :=
                                      map (\<lambda>s. if sub_id s = sid
                                                then s\<lparr>status := ACTIVE, startDate := Some now,
                                                       endDate := Some end\<rparr>
                                                else s) (subscriptions st)\<rparr>;
                              st2 = st1\<lparr>devices :=
                                      map (\<lambda>d. if dev_id d = dev_id dev
                                                then d\<lparr>isOnboarded := True\<rparr> else d)
                                        (devices st1)\<rparr>;
                              response = \<lparr>ac_subscription = subscription,
                                          ac_duration = toString duration @ '' days'',
                                          ac_subscriptionType = subscriptionType subscription\<rparr>
                          in (Inr response, st2)))
      | _ \<Rightarrow> (Inl (CustomError 400 ''Please provide all required fields''), st))"

section \<open>controllers/adminController.js\<close>

text \<open>
  \<open>{...a, ...b}\<close>: the keys of \<open>b\<close> override those of \<open>a\<close>.
\<close>

definition spread :: "metadata \<Rightarrow> metadata \<Rightarrow> metadata" where
  "spread a b = filter (\<lambda>kv. fst kv \<notin> set (map fst b)) a @ b"

record additionalData =
  ad_adminNotes :: "string option"
  ad_metadata :: metadata
  ad_subscriptionPeriod :: "(date option \<times> date option) option"

text \<open>
  \<open>logTransactionUpdate\<close> looks for the latest transaction of the subscription. If
  there is one, it appends a new transaction that points back to it and pushes the
  new \<open>_id\<close> onto its \<open>relatedTransactions\<close>; if there is none, it warns and
  returns \<open>null\<close>.
\<close>

definition logTransactionUpdate ::
  "date \<Rightarrow> string \<Rightarrow> objectId \<Rightarrow> string \<Rightarrow> string \<Rightarrow> objectId \<Rightarrow> additionalData \<Rightarrow> store
     \<Rightarrow> transaction option \<times> store" where
  "logTransactionUpdate now genId subscriptionId ty stat adminId additional st =
     (case findOne (\<lambda>_. True)
             (sortDesc tx_createdAt
                (filter (\<lambda>t. tx_subscription t = subscriptionId) (transactions st))) of
        Some existingTransaction \<Rightarrow>
          let newTx =
                \<lparr>tx_id = newObjectId (transactions st),
                 tx_user = tx_user existingTransaction,
                 tx_subscription = subscriptionId,
                 tx_device = tx_device existingTransaction,
                 transactionId = genId,
                 tx_type = ty,
                 amount = amount existingTransaction,
                 tx_plan = tx_plan existingTransaction,
                 tx_status = stat,
                 paymentMethod = paymentMethod existingTransaction,
                 processedBy = Some adminId,
                 processedAt = Some now,
                 previousTransaction = Some (tx_id existingTransaction),
                 relatedTransactions = [],
                 tx_metadata = spread (tx_metadata existingTransaction) (ad_metadata additional),
                 tx_adminNotes = (case ad_adminNotes additional of None \<Rightarrow> [] | Some n \<Rightarrow> n),
                 subscriptionPeriod =
                   (case ad_subscriptionPeriod additional of
                      None \<Rightarrow> subscriptionPeriod existingTransaction
                    | Some p \<Rightarrow> Some p),
                 completedAt = None,
                 tx_createdAt = now\<rparr>;
              st1 = insertTransaction newTx st;
              existing' = existingTransaction
                \<lparr>relatedTransactions := relatedTransactions existingTransaction @ [tx_id newTx]\<rparr>;
              st2 = saveTransaction existing' st1
          in (Some newTx, st2)
      | None \<Rightarrow> (None, st))"

text \<open>
  The admin handlers. The e-mail that a handler sends in its own \<open>try/catch\<close>
  touches no document and is left out. Each handler answers with the subscription
  document as it saved it. The admin controller's \<open>activateSubscription\<close> is
  \<open>activateSubscription_admin\<close> here, the name without suffix being that of the
  subscription controller.
\<close>

definition approveSubscription ::
  "date \<Rightarrow> string \<Rightarrow> objectId \<Rightarrow> string option \<Rightarrow> bool \<Rightarrow> objectId \<Rightarrow> store
     \<Rightarrow> subscription outcome" where
  "approveSubscription now genId i comments activateNow adminId st =
     (case findById i (subscriptions st) of
        None \<Rightarrow> (Inl (CustomError 404 ''Subscription not found''), st)
      | Some subscription \<Rightarrow>
          if status subscription \<noteq> PENDING
          then (Inl (CustomError 400 ''Only pending subscriptions can be approved''), st)
          else
            (case populateUser st subscription of
               None \<Rightarrow> (Inl (TypeError ''Cannot read properties of null (reading _id)''), st)
             | Some u \<Rightarrow>
                 if findOne (\<lambda>s. user s = usr_id u \<and> status s = ACTIVE \<and> sub_id s \<noteq> i)
                      (subscriptions st) \<noteq> None
                 then (Inl (CustomError 400 ''User already has an active subscription''), st)
                 else if findOne (\<lambda>s. imei s = imei subscription \<and> status s = ACTIVE \<and> sub_id s \<noteq> i)
                      (subscriptions st) \<noteq> None
                 then (Inl (CustomError 400 ''Device already has an active subscription''), st)
                 else
                   let subscriptionDuration = getSubscriptionDuration (plan subscription);
                       sub1 = (if activateNow
                               then subscription\<lparr>status := ACTIVE, startDate := Some now,
                                      endDate := Some (now + subscriptionDuration * msPerDay)\<rparr>
                               else subscription\<lparr>status := APPROVED\<rparr>);
                       sub2 = sub1\<lparr>adminNotes := comments, reviewedBy := Some adminId,
                                reviewedAt := Some now\<rparr>;
                       st1 = saveSubscription sub2 st;
                       transactionType = (if activateNow then ''SUBSCRIPTION_ACTIVATED''
                                          else ''SUBSCRIPTION_APPROVED'');
                       transactionStatus = (if activateNow then ''COMPLETED'' else ''PENDING'');
                       logged = logTransactionUpdate now genId i transactionType
                                  transactionStatus adminId
                                  \<lparr>ad_adminNotes = comments,
                                   ad_metadata = [(''approvedAt'', JDate now),
                                                  (''activatedImmediately'', JBool activateNow)],
                                   ad_subscriptionPeriod =
                                     (if activateNow then Some (startDate sub2, endDate sub2)
                                      else None)\<rparr> st1
                   in (Inr sub2, snd logged)))"

definition rejectSubscription ::
  "date \<Rightarrow> string \<Rightarrow> objectId \<Rightarrow> string option \<Rightarrow> string option \<Rightarrow> objectId \<Rightarrow> store
     \<Rightarrow> subscription outcome" where
  "rejectSubscription now genId i reason comments adminId st =
     (case reason of
        None \<Rightarrow> (Inl (CustomError 400 ''Rejection reason is required''), st)
      | Some rsn \<Rightarrow>
          if rsn = [] then (Inl (CustomError 400 ''Rejection reason is required''), st)
          else
            (case findById i (subscriptions st) of
               None \<Rightarrow> (Inl (CustomError 404 ''Subscription not found''), st)
             | Some subscription \<Rightarrow>
                 if status subscription \<noteq> PENDING
                 then (Inl (CustomError 400 ''Only pending subscriptions can be rejected''), st)
                 else
                   let notes = trim (rsn @ ''. '' @ (case comments of None \<Rightarrow> [] | Some c \<Rightarrow> c));
                       sub1 = subscription\<lparr>status := CANCELLED, adminNotes := Some notes,
                                reviewedBy := Some adminId, reviewedAt := Some now\<rparr>;
                       st1 = saveSubscription sub1 st;
                       logged = logTransactionUpdate now genId i ''SUBSCRIPTION_REJECTED''
                                  ''FAILED'' adminId
                                  \<lparr>ad_adminNotes = Some notes,
                                   ad_metadata = [(''rejectedAt'', JDate now),
                                                  (''rejectionReason'', JStr rsn)],
                                   ad_subscriptionPeriod = None\<rparr> st1
                   in (Inr sub1, snd logged)))"

definition activateSubscription_admin ::
  "date \<Rightarrow> string \<Rightarrow> objectId \<Rightarrow> string option \<Rightarrow> objectId \<Rightarrow> store \<Rightarrow> subscription outcome" where
  "activateSubscription_admin now genId i comments adminId st =
     (case findById i (subscriptions st) of
        None \<Rightarrow> (Inl (CustomError 404 ''Subscription not found''), st)
      | Some subscription \<Rightarrow>
          if status subscription \<noteq> APPROVED
          then (Inl (CustomError 400 ''Only approved subscriptions can be activated''), st)
          else
            (case populateUser st subscription of
               None \<Rightarrow> (Inl (TypeError ''Cannot read properties of null (reading _id)''), st)
             | Some u \<Rightarrow>
                 if findOne (\<lambda>s. ((user s = usr_id u \<and> status s = ACTIVE) \<or>
                                   (imei s = imei subscription \<and> status s = ACTIVE)) \<and>
                                  sub_id s \<noteq> i) (subscriptions st) \<noteq> None
                 then (Inl (CustomError 400 ''User or device already has an active subscription''),
                       st)
                 else
                   let subscriptionDuration = getSubscriptionDuration (plan subscription);
                       sub1 = subscription\<lparr>status := ACTIVE, startDate := Some now,
                                endDate := Some (now + subscriptionDuration * msPerDay)\<rparr>;
                       sub2 = (case comments of
                                 None \<Rightarrow> sub1
                               | Some c \<Rightarrow>
                                   if c = [] then sub1
                                   else sub1\<lparr>adminNotes :=
                                          Some (trim ((case adminNotes sub1 of None \<Rightarrow> []
                                                       | Some n \<Rightarrow> n) @ '' '' @ c))\<rparr>);
                       st1 = saveSubscription sub2 st;
                       logged = logTransactionUpdate now genId i ''SUBSCRIPTION_ACTIVATED''
                                  ''COMPLETED'' adminId
                                  \<lparr>ad_adminNotes = comments,
                                   ad_metadata = [(''activatedAt'', JDate now)],
                                   ad_subscriptionPeriod = Some (startDate sub2, endDate sub2)\<rparr>
                                  st1
                   in (Inr sub2, snd logged)))"

text \<open>
  \<open>Subscription.updateMany(filter, {$inc: {queuePosition: d}})\<close> is the parameter
  \<open>updateMany\<close> of the handler below: what it does depends on the type of the
  path. Mongoose casts the values of a filter and the operand of \<open>$inc\<close> with
  the schema type of the path. \<open>queuePosition\<close> is a String path: the bounds of a
  range on it become strings and are compared as strings, and the operand of
  \<open>$inc\<close> reaches the store as the string of the number. The store refuses a
  \<open>$inc\<close> whose operand is not a number and modifies no document
  (\<open>updateManyInc\<close>).

  For comparison, \<open>updateManyIncNumeric\<close> is the update on a store that adds
  \<open>d\<close> to the number a stored position stands for, in every document that
  matches.
\<close>

type_synonym updateManyFn =
  "(subscription \<Rightarrow> bool) \<Rightarrow> int \<Rightarrow> subscription list \<Rightarrow> error + subscription list"

definition updateManyInc :: updateManyFn where
  "updateManyInc flt d subs =
     (let operand = toString d
      in Inl (MongoServerError
                (''Cannot increment with non-numeric argument: {queuePosition: '' @ operand @ ''}'')))"

definition updateManyIncNumeric :: updateManyFn where
  "updateManyIncNumeric flt d subs =
     Inr (map (\<lambda>s. if flt s
                    then s\<lparr>queuePosition :=
                           map_option (\<lambda>q. toString ((case parseInt q of None \<Rightarrow> 0 | Some k \<Rightarrow> k) + d))
                             (queuePosition s)\<rparr>
                    else s) subs)"

definition inRange ::
  "(string \<Rightarrow> bool) \<Rightarrow> (string \<Rightarrow> string \<Rightarrow> bool) \<Rightarrow> string option \<Rightarrow> subscription \<Rightarrow> bool" where
  "inRange lower upper bound s =
     (case queuePosition s of
        None \<Rightarrow> False
      | Some q \<Rightarrow> (case bound of None \<Rightarrow> False | Some b \<Rightarrow> lower q \<and> upper q b))"

text \<open>
  \<open>updateQueuePosition\<close>. \<open>newPosition\<close> is the number of the request body
  (\<open>None\<close> when the body has none), \<open>oldPosition\<close> is the stored string. A number
  is never \<open>===\<close> to a string or to \<open>undefined\<close>, so \<open>newPosition !== oldPosition\<close>
  holds; \<open>newPosition < oldPosition\<close> converts the string to a number and is false
  when that is \<open>NaN\<close>. The assignment \<open>subscription.queuePosition = newPosition\<close>
  stores the string of the number. The nested \<open>queuePositionChange\<close> of the log
  entry's metadata is written with dotted keys.
\<close>

definition updateQueuePosition ::
  "updateManyFn \<Rightarrow> date \<Rightarrow> string \<Rightarrow> objectId \<Rightarrow> int option \<Rightarrow> objectId \<Rightarrow> store
     \<Rightarrow> subscription outcome" where
  "updateQueuePosition updateMany now genId i newPosition adminId st =
     (case newPosition of
        None \<Rightarrow> (Inl (CustomError 400 ''Valid queue position is required''), st)
      | Some np \<Rightarrow>
          if np = 0 \<or> np < 1
          then (Inl (CustomError 400 ''Valid queue position is required''), st)
          else
            (case findById i (subscriptions st) of
               None \<Rightarrow> (Inl (CustomError 404 ''Subscription not found''), st)
             | Some subscription \<Rightarrow>
                 if status subscription \<noteq> PENDING
                 then (Inl (CustomError 400
                         ''Can only update queue position for pending subscriptions''), st)
                 else
                   let oldPosition = queuePosition subscription;
                       movingUp = (case oldPosition of
                                     None \<Rightarrow> False
                                   | Some old \<Rightarrow>
                                       (case toNumber old of None \<Rightarrow> False | Some k \<Rightarrow> np < k));
                       shifted =
                         (if movingUp
                          then updateMany
                                 (\<lambda>s. inRange (\<lambda>q. toString np \<le> q) (\<lambda>q b. q < b) oldPosition s \<and>
                                      status s = PENDING \<and> sub_id s \<noteq> i)
                                 1 (subscriptions st)
                          else updateMany
                                 (\<lambda>s. inRange (\<lambda>q. q \<le> toString np) (\<lambda>q b. b < q) oldPosition s \<and>
                                      status s = PENDING \<and> sub_id s \<noteq> i)
                                 (- 1) (subscriptions st))
                   in (case shifted of
                         Inl e \<Rightarrow> (Inl e, st)
                       | Inr subs' \<Rightarrow>
                           let sub1 = subscription\<lparr>queuePosition := Some (toString np)\<rparr>;
                               st1 = saveSubscription sub1 (st\<lparr>subscriptions := subs'\<rparr>);
                               old = (case oldPosition of None \<Rightarrow> ''undefined'' | Some q \<Rightarrow> q);
                               logged = logTransactionUpdate now genId i ''QUEUE_POSITION_UPDATED''
                                          ''PENDING'' adminId
                                          \<lparr>ad_adminNotes =
                                             Some (''Queue position changed from '' @ old @
                                                   '' to '' @ toString np),
                                           ad_metadata =
                                             [(''queuePositionChange.from'', JStr old),
                                              (''queuePositionChange.to'', JNum (Finite (of_int np))),
                                              (''queuePositionChange.updatedAt'', JDate now)],
                                           ad_subscriptionPeriod = None\<rparr> st1
                           in (Inr sub1, snd logged))))"

text \<open>
  \<open>bulkUpdateSubscriptions\<close>. \<open>data\<close> is the object of the request body
  (\<open>None\<close> when the body has none). Each id is handled inside its own
  \<open>try/catch\<close>, which turns a thrown error into a failed result. \<open>Promise.all\<close>
  starts the handlers in the order of the list; the model runs them one after the
  other. \<open>genId\<close> gives the generated transaction id for the log entry of an id.
\<close>

record bulkData =
  bd_activateNow :: bool
  bd_comments :: "string option"
  bd_reason :: "string option"

record bulkResult =
  br_id :: objectId
  br_status :: string
  br_reason :: "string option"
  br_success :: bool

record bulkResponse =
  bk_results :: "bulkResult list"
  bk_processed :: nat
  bk_successful :: nat
  bk_failed :: nat

definition failedResult :: "objectId \<Rightarrow> string \<Rightarrow> bulkResult" where
  "failedResult i why =
     \<lparr>br_id = i, br_status = ''failed'', br_reason = Some why, br_success = False\<rparr>"

definition orEmpty :: "string option \<Rightarrow> string" where
  "orEmpty v = (case v of None \<Rightarrow> [] | Some x \<Rightarrow> x)"

definition bulkApproveOne ::
  "date \<Rightarrow> (objectId \<Rightarrow> string) \<Rightarrow> bulkData option \<Rightarrow> objectId \<Rightarrow> objectId \<Rightarrow> store
     \<Rightarrow> bulkResult \<times> store" where
  "bulkApproveOne now genId data adminId i st =
     (case findById i (subscriptions st) of
        None \<Rightarrow> (failedResult i ''Invalid status or not found'', st)
      | Some sub \<Rightarrow>
          if status sub \<noteq> PENDING
          then (failedResult i ''Invalid status or not found'', st)
          else
            (case data of
               None \<Rightarrow>
                 (failedResult i ''Cannot read properties of undefined (reading activateNow)'',
                  st)
             | Some d \<Rightarrow>
                 let sub1 = sub\<lparr>status := (if bd_activateNow d then ACTIVE else APPROVED),
                              adminNotes := Some (orEmpty (bd_comments d)),
                              reviewedBy := Some adminId, reviewedAt := Some now\<rparr>;
                     sub2 = (if bd_activateNow d
                             then sub1\<lparr>startDate := Some now,
                                    endDate := Some (now + getSubscriptionDuration (plan sub1)
                                                             * msPerDay)\<rparr>
                             else sub1);
                     st1 = saveSubscription sub2 st;
                     logged = logTransactionUpdate now (genId i) i
                                (if bd_activateNow d then ''SUBSCRIPTION_ACTIVATED''
                                 else ''SUBSCRIPTION_APPROVED'')
                                (if bd_activateNow d then ''COMPLETED'' else ''PENDING'') adminId
                                \<lparr>ad_adminNotes =
                                   Some (''Bulk operation: '' @ orEmpty (bd_comments d)),
                                 ad_metadata = [(''bulkOperation'', JBool True)],
                                 ad_subscriptionPeriod = None\<rparr> st1
                 in (\<lparr>br_id = i, br_status = ''approved'', br_reason = None,
                      br_success = True\<rparr>, snd logged)))"

definition bulkRejectOne ::
  "date \<Rightarrow> (objectId \<Rightarrow> string) \<Rightarrow> bulkData \<Rightarrow> objectId \<Rightarrow> objectId \<Rightarrow> store
     \<Rightarrow> bulkResult \<times> store" where
  "bulkRejectOne now genId d adminId i st =
     (case findById i (subscriptions st) of
        None \<Rightarrow> (failedResult i ''Invalid status or not found'', st)
      | Some sub \<Rightarrow>
          if status sub \<noteq> PENDING
          then (failedResult i ''Invalid status or not found'', st)
          else
            let notes = trim (orEmpty (bd_reason d) @ ''. '' @ orEmpty (bd_comments d));
                sub1 = sub\<lparr>status := CANCELLED, adminNotes := Some notes,
                         reviewedBy := Some adminId, reviewedAt := Some now\<rparr>;
                st1 = saveSubscription sub1 st;
                logged = logTransactionUpdate now (genId i) i ''SUBSCRIPTION_REJECTED''
                           ''FAILED'' adminId
                           \<lparr>ad_adminNotes = Some notes,
                            ad_metadata = [(''bulkOperation'', JBool True),
                                           (''rejectionReason'', JStr (orEmpty (bd_reason d)))],
                            ad_subscriptionPeriod = None\<rparr> st1
            in (\<lparr>br_id = i, br_status = ''rejected'', br_reason = None,
                 br_success = True\<rparr>, snd logged))"

fun forEachId ::
  "(objectId \<Rightarrow> store \<Rightarrow> bulkResult \<times> store) \<Rightarrow> objectId list \<Rightarrow> store
     \<Rightarrow> bulkResult list \<times> store" where
  "forEachId f [] st = ([], st)"
| "forEachId f (i # ids) st =
     (let (r, st1) = f i st;
          (rs, st2) = forEachId f ids st1
      in (r # rs, st2))"

definition bulkResponseOf :: "objectId list \<Rightarrow> bulkResult list \<Rightarrow> bulkResponse" where
  "bulkResponseOf subscriptionIds updateResult =
     \<lparr>bk_results = updateResult,
      bk_processed = length subscriptionIds,
      bk_successful = length (filter br_success updateResult),
      bk_failed = length (filter (\<lambda>r. \<not> br_success r) updateResult)\<rparr>"

definition bulkUpdateSubscriptions ::
  "date \<Rightarrow> (objectId \<Rightarrow> string) \<Rightarrow> objectId list \<Rightarrow> string \<Rightarrow> bulkData option \<Rightarrow> objectId
     \<Rightarrow> store \<Rightarrow> bulkResponse outcome" where
  "bulkUpdateSubscriptions now genId subscriptionIds action data adminId st =
     (if subscriptionIds = []
      then (Inl (CustomError 400 ''Subscription IDs array is required''), st)
      else if action = []
      then (Inl (CustomError 400 ''Action is required''), st)
      else if action = ''approve''
      then (let (updateResult, st1) =
                  forEachId (bulkApproveOne now genId data adminId) subscriptionIds st
            in (Inr (bulkResponseOf subscriptionIds updateResult), st1))
      else if action = ''reject''
      then (case data of
              None \<Rightarrow> (Inl (TypeError ''Cannot read properties of undefined (reading reason)''),
                        st)
            | Some d \<Rightarrow>
                if missing (bd_reason d)
                then (Inl (CustomError 400 ''Rejection reason is required for bulk rejection''),
                      st)
                else (let (updateResult, st1) =
                            forEachId (bulkRejectOne now genId d adminId) subscriptionIds st
                      in (Inr (bulkResponseOf subscriptionIds updateResult), st1)))
      else (Inl (CustomError 400 ''Invalid action specified''), st))"

section \<open>The properties\<close>

text \<open>
  The number a stored position stands for, and the two invariants of the spec: the
  positions of a device's queue are exactly \<open>1..N\<close>, each once; no two ACTIVE
  subscriptions share an identity or an IMEI.
\<close>

definition positionValue :: "subscription \<Rightarrow> int option" where
  "positionValue s = (case queuePosition s of None \<Rightarrow> None | Some q \<Rightarrow> parseInt q)"

definition denselyPacked :: "string \<Rightarrow> subscription list \<Rightarrow> bool" where
  "denselyPacked i subs \<longleftrightarrow>
     (let vs = map positionValue (filter (inQueue i) subs)
      in distinct vs \<and> set vs = set (map (\<lambda>k. Some (int k)) [1..<Suc (length vs)]))"

definition activeUnique :: "subscription list \<Rightarrow> bool" where
  "activeUnique subs \<longleftrightarrow>
     (let act = filter (\<lambda>s. status s = ACTIVE) subs
      in distinct (map user act) \<and> distinct (map imei act))"

text \<open>
  What the ledger must look like after a logged mutation of subscription \<open>i\<close>:
  one entry more, the new entry last, of the given type, pointing back to the
  entry \<open>prev\<close> that was the latest one of the subscription, and \<open>prev\<close> listing the
  new entry among its related transactions. No older entry is removed.
\<close>

definition appendedLinked ::
  "objectId \<Rightarrow> string \<Rightarrow> transaction list \<Rightarrow> transaction list \<Rightarrow> bool" where
  "appendedLinked i ty before after \<longleftrightarrow>
     length after = Suc (length before) \<and>
     map tx_id (butlast after) = map tx_id before \<and>
     tx_subscription (last after) = i \<and>
     tx_type (last after) = ty \<and>
     tx_id (last after) \<notin> set (map tx_id before) \<and>
     (case findOne (\<lambda>_. True)
             (sortDesc tx_createdAt (filter (\<lambda>t. tx_subscription t = i) before)) of
        None \<Rightarrow> False
      | Some prev \<Rightarrow>
          previousTransaction (last after) = Some (tx_id prev) \<and>
          (\<exists>p \<in> set (butlast after).
             tx_id p = tx_id prev \<and>
             relatedTransactions p = relatedTransactions prev @ [tx_id (last after)]))"

text \<open>
  What a logged mutation of subscription \<open>i\<close> does to the ledger: the entry is
  appended and linked when the subscription has an entry already, and the ledger
  stays as it is when it has none.
\<close>

definition hasTransaction :: "objectId \<Rightarrow> store \<Rightarrow> bool" where
  "hasTransaction i st \<longleftrightarrow> (\<exists>t \<in> set (transactions st). tx_subscription t = i)"

definition logged :: "objectId \<Rightarrow> string \<Rightarrow> store \<Rightarrow> store \<Rightarrow> bool" where
  "logged i ty st st' \<longleftrightarrow>
     (if hasTransaction i st
      then appendedLinked i ty (transactions st) (transactions st')
      else transactions st' = transactions st)"

section \<open>Example stores\<close>

definition exampleSubscription ::
  "objectId \<Rightarrow> objectId \<Rightarrow> string \<Rightarrow> status \<Rightarrow> string option \<Rightarrow> subscription" where
  "exampleSubscription i u dev stat pos =
     \<lparr>sub_id = i, user = u, imei = dev, plan = ''mobile-v4-basic'',
      price = numberOf (getSubscriptionPrice ''mobile-v4-basic''), queuePosition = pos,
      startDate = None, endDate = None, status = stat, reviewedBy = None,
      reviewedAt = None, adminNotes = None, priority = 0, createdAt = int i,
      cancelledAt = None, cancellationReason = None\<rparr>"

definition exampleUsers :: "userDoc list" where
  "exampleUsers = [\<lparr>usr_id = 1, username = ''ada'', email = ''ada@example.org''\<rparr>,
                   \<lparr>usr_id = 2, username = ''bob'', email = ''bob@example.org''\<rparr>]"

definition exampleTransaction :: "objectId \<Rightarrow> objectId \<Rightarrow> transaction" where
  "exampleTransaction t i =
     newTransaction t ''TXN-1'' 0 1 i ''SUBSCRIPTION_CREATED''
       (numberOf (getSubscriptionPrice ''mobile-v4-basic'')) ''mobile-v4-basic'' ''PENDING'' []"

text \<open>Two pending requests of one user for the same device, no ledger entry.\<close>

definition twoPending :: store where
  "twoPending =
     \<lparr>users = exampleUsers, devices = [],
      subscriptions = [exampleSubscription 1 1 ''123456789012345'' PENDING (Some ''1''),
                       exampleSubscription 2 1 ''123456789012345'' PENDING (Some ''2'')],
      transactions = []\<rparr>"

text \<open>The same requests, each with the ledger entry of its creation.\<close>

definition twoPendingLogged :: store where
  "twoPendingLogged = twoPending\<lparr>transactions := [exampleTransaction 1 1, exampleTransaction 2 2]\<rparr>"

text \<open>Ten pending requests for one device, at the positions 1 to 10.\<close>

definition tenPending :: "subscription list" where
  "tenPending =
     map (\<lambda>k. exampleSubscription k 1 ''123456789012345'' PENDING (Some (toString (int k))))
       [1..<11]"

text \<open>Two devices, each with a queue of two pending requests.\<close>

definition twoDevices :: store where
  "twoDevices =
     \<lparr>users = exampleUsers, devices = [],
      subscriptions = [exampleSubscription 1 1 ''123456789012345'' PENDING (Some ''1''),
                       exampleSubscription 2 1 ''123456789012345'' PENDING (Some ''2''),
                       exampleSubscription 3 2 ''490154203237518'' PENDING (Some ''1''),
                       exampleSubscription 4 2 ''490154203237518'' PENDING (Some ''2'')],
      transactions = [exampleTransaction 1 1, exampleTransaction 2 2,
                      exampleTransaction 3 3, exampleTransaction 4 4]\<rparr>"

text \<open>
  One user with an expired subscription and a later, active one for the same
  device.
\<close>

definition expiredAndActive :: store where
  "expiredAndActive =
     \<lparr>users = exampleUsers, devices = [],
      subscriptions = [exampleSubscription 1 1 ''123456789012345'' EXPIRED None,
                       exampleSubscription 2 1 ''123456789012345'' ACTIVE None],
      transactions = []\<rparr>"

definition markCompleted :: updateStatusFn where
  "markCompleted t stat d txs =
     map (\<lambda>x. if tx_id x = tx_id t then x\<lparr>tx_status := stat, completedAt := Some d\<rparr> else x) txs"

text \<open>One user with one active subscription of the given plan.\<close>

definition activeOn :: "string \<Rightarrow> subscription" where
  "activeOn pl =
     (exampleSubscription 1 1 ''123456789012345'' ACTIVE None)
       \<lparr>plan := pl, price := numberOf (getSubscriptionPrice pl), startDate := Some 0,
        endDate := Some (getSubscriptionDuration pl * msPerDay)\<rparr>"

text \<open>
  An active full-suite-premium subscription whose stored price is the default of the
  schema, 0.
\<close>

definition premiumAtDefaultPrice :: store where
  "premiumAtDefaultPrice =
     \<lparr>users = exampleUsers, devices = [],
      subscriptions = [(activeOn ''full-suite-premium'')\<lparr>price := Finite 0\<rparr>],
      transactions = []\<rparr>"

definition oneActive :: "string \<Rightarrow> store" where
  "oneActive pl =
     \<lparr>users = exampleUsers, devices = [], subscriptions = [activeOn pl], transactions = []\<rparr>"

text \<open>
  Three requests of which the second is cancelled already, each with the ledger
  entry of its creation.
\<close>

definition secondCancelled :: store where
  "secondCancelled =
     \<lparr>users = exampleUsers, devices = [],
      subscriptions = [exampleSubscription 1 1 ''123456789012345'' PENDING (Some ''1''),
                       exampleSubscription 2 1 ''490154203237518'' CANCELLED None,
                       exampleSubscription 3 2 ''356938035643809'' PENDING (Some ''1'')],
      transactions = [exampleTransaction 1 1, exampleTransaction 2 2, exampleTransaction 3 3]\<rparr>"

definition exampleGenId :: "objectId \<Rightarrow> string" where
  "exampleGenId i = ''TXN-'' @ toString (int i)"

text \<open>
  A queued subscription of the given plan, with the device of its user, and a
  verifier that accepts one code.
\<close>

definition queuedOn :: "string \<Rightarrow> status \<Rightarrow> store" where
  "queuedOn pl stat =
     \<lparr>users = exampleUsers,
      devices = [\<lparr>dev_id = 1, dev_user = Some 1, dev_imei = ''123456789012345'',
                  totpSecret = ''JBSWY3DPEHPK3PXP'', deviceName = ''Phone'',
                  isOnboarded = False\<rparr>],
      subscriptions = [(exampleSubscription 1 1 ''123456789012345'' stat (Some ''1''))
                         \<lparr>plan := pl, price := numberOf (getSubscriptionPrice pl)\<rparr>],
      transactions = []\<rparr>"

definition acceptsOnly :: "string \<Rightarrow> string \<Rightarrow> string \<Rightarrow> nat \<Rightarrow> bool" where
  "acceptsOnly good secret code window \<longleftrightarrow> code = good"

section \<open>The prices as doubles\<close>

text \<open>
  The doubles that the seven decimal literals of the price table denote. The table
  and the lookup are evaluated with these values.
\<close>

lemma price_literals:
  "roundToDouble 29.99 = Finite (8441434551552573 / 281474976710656)"
  "roundToDouble 49.99 = Finite (7035467042882847 / 140737488355328)"
  "roundToDouble 99.99 = Finite (7036170730324623 / 70368744177664)"
  "roundToDouble 39.99 = Finite (5628092159329567 / 140737488355328)"
  "roundToDouble 59.99 = Finite (8442841926436127 / 140737488355328)"
  "roundToDouble 79.99 = Finite (5628795846771343 / 70368744177664)"
  "roundToDouble 149.99 = Finite (659662996200489 / 4398046511104)"
  by code_simp+

lemma SUBSCRIPTION_PRICES_doubles [code]:
  "SUBSCRIPTION_PRICES = [
     ''mobile-v4-basic'' \<mapsto> Finite (8441434551552573 / 281474976710656),
     ''mobile-v4-premium'' \<mapsto> Finite (7035467042882847 / 140737488355328),
     ''mobile-v4-enterprise'' \<mapsto> Finite (7036170730324623 / 70368744177664),
     ''mobile-v5-basic'' \<mapsto> Finite (5628092159329567 / 140737488355328),
     ''mobile-v5-premium'' \<mapsto> Finite (8442841926436127 / 140737488355328),
     ''full-suite-basic'' \<mapsto> Finite (5628795846771343 / 70368744177664),
     ''full-suite-premium'' \<mapsto> Finite (659662996200489 / 4398046511104)]"
  unfolding SUBSCRIPTION_PRICES_def price_literals ..

lemma getSubscriptionPrice_doubles [code]:
  "getSubscriptionPrice ty =
     (case SUBSCRIPTION_PRICES ty of
        Some p \<Rightarrow> JSNumber p
      | None \<Rightarrow>
          if ty \<in> set objectPrototypeKeys then JSObject ty
          else JSNumber (Finite (8441434551552573 / 281474976710656)))"
  unfolding getSubscriptionPrice_def price_literals ..

section \<open>Decimal strings\<close>

lemma of_char_digitChar: "d < 10 \<Longrightarrow> (of_char (digitChar d) :: nat) = 48 + d"
  by (simp add: digitChar_def)

lemma isDigit_digitChar: "d < 10 \<Longrightarrow> isDigit (digitChar d)"
  by (simp add: isDigit_def of_char_digitChar)

lemma digitVal_digitChar: "d < 10 \<Longrightarrow> digitVal (digitChar d) = d"
  by (simp add: digitVal_def of_char_digitChar)

lemma natToString_digits: "list_all isDigit (natToString n)"
proof (induction n rule: natToString.induct)
  case (1 n)
  show ?case
  proof (cases "n < 10")
    case True
    then show ?thesis by (subst natToString.simps) (simp add: isDigit_digitChar)
  next
    case False
    with 1 show ?thesis by (subst natToString.simps) (simp add: isDigit_digitChar)
  qed
qed

lemma natToString_nonempty: "natToString n \<noteq> []"
  by (subst natToString.simps) simp

lemma digitsValue_snoc: "digitsValue (ds @ [c]) = 10 * digitsValue ds + digitVal c"
  by (simp add: digitsValue_def)

lemma digitsValue_natToString: "digitsValue (natToString n) = n"
proof (induction n rule: natToString.induct)
  case (1 n)
  show ?case
  proof (cases "n < 10")
    case True
    then show ?thesis
      by (subst natToString.simps) (simp add: digitsValue_def digitVal_digitChar)
  next
    case False
    with 1 show ?thesis
      by (subst natToString.simps) (simp add: digitsValue_snoc digitVal_digitChar)
  qed
qed

lemma isDigit_not_special:
  "isDigit c \<Longrightarrow>
     \<not> isWhiteSpace c \<and> c \<noteq> CHR ''-'' \<and> c \<noteq> CHR ''+'' \<and> c \<noteq> CHR ''x'' \<and> c \<noteq> CHR ''X''"
  by (auto simp: isDigit_def isWhiteSpace_def)

lemma parseDigits_decimal:
  assumes "list_all isDigit ds" "ds \<noteq> []"
  shows "parseDigits 10 (\<lambda>c. if isDigit c then Some (digitVal c) else None) ds
           = Some (digitsValue ds)"
proof -
  have tw: "takeWhile isDigit ds = ds"
    using assms(1) by (induction ds) auto
  have fold: "foldl (\<lambda>a c. 10 * a + the (if isDigit c then Some (digitVal c) else None)) a ds
            = foldl (\<lambda>a c. 10 * a + digitVal c) a ds" for a
    using assms(1) by (induction ds arbitrary: a) auto
  show ?thesis
    using assms(2) by (simp add: parseDigits_def tw fold digitsValue_def Let_def)
qed

lemma parseInt_digits:
  assumes "list_all isDigit ds" "ds \<noteq> []"
  shows "parseInt ds = Some (int (digitsValue ds))"
proof -
  obtain c r where ds: "ds = c # r" using assms(2) by (cases ds) auto
  have c: "isDigit c" using assms(1) ds by simp
  have dw: "dropWhile isWhiteSpace ds = ds"
    using c ds isDigit_not_special by simp
  have nothex: "(case ds of c # x # _ \<Rightarrow> c = CHR ''0'' \<and> (x = CHR ''x'' \<or> x = CHR ''X'')
                 | _ \<Rightarrow> False) = False"
    using assms(1) ds isDigit_not_special by (cases r) auto
  show ?thesis
    unfolding parseInt_def dw Let_def
    using c isDigit_not_special[OF c] nothex parseDigits_decimal[OF assms]
    by (simp add: ds)
qed

lemma parseInt_toString: "0 \<le> n \<Longrightarrow> parseInt (toString n) = Some n"
  by (simp add: toString_def parseInt_digits natToString_digits natToString_nonempty
      digitsValue_natToString)

section \<open>Documents and their ids\<close>


lemma find_Some_mem: "find P xs = Some x \<Longrightarrow> x \<in> set xs \<and> P x"
  by (auto simp: find_Some_iff)



lemma map_sub_id_save: "map sub_id (save d subs) = map sub_id subs"
  by (induction subs) (auto simp: save_def)

lemma save_other_ids: "sub_id d \<notin> sub_id ` set subs \<Longrightarrow> save d subs = subs"
  by (induction subs) (auto simp: save_def)

lemma filter_other_ids:
  "k \<notin> sub_id ` set subs \<Longrightarrow> filter (\<lambda>s. R s \<and> sub_id s \<noteq> k) subs = filter R subs"
  by (induction subs) auto

lemma save_keeps_others:
  "x \<in> set subs \<Longrightarrow> sub_id x \<noteq> sub_id d \<Longrightarrow> x \<in> set (save d subs)"
  by (induction subs) (auto simp: save_def)

lemma save_filter_mset:
  assumes "distinct (map sub_id subs)" "q \<in> set subs" "sub_id d = sub_id q"
  shows "mset (filter R (save d subs)) =
           (if R d then {#d#} else {#}) + mset (filter (\<lambda>s. R s \<and> sub_id s \<noteq> sub_id q) subs)"
  using assms
proof (induction subs)
  case Nil
  then show ?case by simp
next
  case (Cons x xs)
  show ?case
  proof (cases "x = q")
    case True
    with Cons.prems have notin: "sub_id q \<notin> sub_id ` set xs" by auto
    have "save d (x # xs) = d # xs"
      using True Cons.prems(3) notin save_other_ids[of d xs] by (simp add: save_def)
    then show ?thesis
      using True notin filter_other_ids[of "sub_id q" xs R] by simp
  next
    case False
    with Cons.prems have q: "q \<in> set xs" and ne: "sub_id x \<noteq> sub_id q" by auto
    have "save d (x # xs) = x # save d xs"
      using ne Cons.prems(3) by (simp add: save_def)
    then show ?thesis
      using Cons.IH[OF _ q Cons.prems(3)] Cons.prems(1) ne by simp
  qed
qed

lemma subscriptions_insertTransaction [simp]:
  "subscriptions (insertTransaction t st) = subscriptions st"
  by (simp add: insertTransaction_def)

lemma transactions_saveSubscription [simp]:
  "transactions (saveSubscription d st) = transactions st"
  by (simp add: saveSubscription_def)

section \<open>The queue of a device\<close>

lemma reorderLoop_ids: "map sub_id (reorderLoop k qs subs) = map sub_id subs"
  by (induction qs arbitrary: k subs) (simp_all add: map_sub_id_save)

lemma inQueue_position [simp]: "inQueue i (s\<lparr>queuePosition := p\<rparr>) = inQueue i s"
  by (simp add: inQueue_def)

lemma reorderLoop_positions:
  assumes "distinct (map sub_id subs)" "distinct (map sub_id qs)" "set qs \<subseteq> set subs"
    "\<forall>q \<in> set qs. inQueue i q"
  shows "mset (map queuePosition (filter (inQueue i) (reorderLoop k qs subs))) =
           mset (map (\<lambda>j. Some (toString (int j + 1))) [k..<k + length qs]) +
           mset (map queuePosition
                  (filter (\<lambda>s. inQueue i s \<and> sub_id s \<notin> sub_id ` set qs) subs))"
  using assms
proof (induction qs arbitrary: k subs)
  case Nil
  then show ?case by simp
next
  case (Cons q qs)
  define d where "d = q\<lparr>queuePosition := Some (toString (int k + 1))\<rparr>"
  have d_id: "sub_id d = sub_id q" and d_in: "inQueue i d"
    using Cons.prems(4) by (simp_all add: d_def)
  have q_in: "q \<in> set subs" using Cons.prems(3) by simp
  have q_notin: "sub_id q \<notin> sub_id ` set qs" using Cons.prems(2) by auto
  have 1: "distinct (map sub_id (save d subs))"
    using Cons.prems(1) by (simp add: map_sub_id_save)
  have 2: "distinct (map sub_id qs)" using Cons.prems(2) by simp
  have 3: "set qs \<subseteq> set (save d subs)"
  proof
    fix x assume x: "x \<in> set qs"
    then have "x \<in> set subs" using Cons.prems(3) by auto
    moreover have "sub_id x \<noteq> sub_id d" using x q_notin d_id by (metis imageI)
    ultimately show "x \<in> set (save d subs)" by (rule save_keeps_others)
  qed
  have 4: "\<forall>q \<in> set qs. inQueue i q" using Cons.prems(4) by simp
  have flt: "mset (filter (\<lambda>s. inQueue i s \<and> sub_id s \<notin> sub_id ` set qs) (save d subs)) =
        {#d#} + mset (filter (\<lambda>s. inQueue i s \<and> sub_id s \<notin> sub_id ` set (q # qs)) subs)"
  proof -
    have "(\<lambda>s. (inQueue i s \<and> sub_id s \<notin> sub_id ` set qs) \<and> sub_id s \<noteq> sub_id q) =
          (\<lambda>s. inQueue i s \<and> sub_id s \<notin> sub_id ` set (q # qs))" by auto
    then show ?thesis
      using save_filter_mset[OF Cons.prems(1) q_in d_id,
          of "\<lambda>s. inQueue i s \<and> sub_id s \<notin> sub_id ` set qs"] d_in d_id q_notin
      by simp
  qed
  have "mset (map queuePosition (filter (inQueue i) (reorderLoop k (q # qs) subs))) =
        mset (map queuePosition (filter (inQueue i) (reorderLoop (Suc k) qs (save d subs))))"
    by (simp add: d_def)
  also have "\<dots> = mset (map (\<lambda>j. Some (toString (int j + 1))) [Suc k..<Suc k + length qs]) +
           mset (map queuePosition
                  (filter (\<lambda>s. inQueue i s \<and> sub_id s \<notin> sub_id ` set qs) (save d subs)))"
    by (rule Cons.IH[OF 1 2 3 4])
  also have "mset (map queuePosition
                  (filter (\<lambda>s. inQueue i s \<and> sub_id s \<notin> sub_id ` set qs) (save d subs))) =
        {#Some (toString (int k + 1))#} + mset (map queuePosition
           (filter (\<lambda>s. inQueue i s \<and> sub_id s \<notin> sub_id ` set (q # qs)) subs))"
    using arg_cong[OF flt, of "image_mset queuePosition"] by (simp add: d_def)
  also have "mset (map (\<lambda>j. Some (toString (int j + 1))) [Suc k..<Suc k + length qs]) +
      ({#Some (toString (int k + 1))#} + mset (map queuePosition
           (filter (\<lambda>s. inQueue i s \<and> sub_id s \<notin> sub_id ` set (q # qs)) subs))) =
      mset (map (\<lambda>j. Some (toString (int j + 1))) [k..<k + length (q # qs)]) +
       mset (map queuePosition
           (filter (\<lambda>s. inQueue i s \<and> sub_id s \<notin> sub_id ` set (q # qs)) subs))"
  proof -
    have upt: "[k..<k + length (q # qs)] = k # [Suc k..<Suc k + length qs]"
      by (simp add: upt_conv_Cons del: upt_Suc)
    show ?thesis unfolding upt by (simp del: mset_upt)
  qed
  finally show ?case .
qed

text \<open>
  Claim C1, as the code has it. The dense packing is what \<open>reorderDeviceQueue\<close>
  establishes: on a store whose document ids are unique, after
  \<open>reorderDeviceQueue(imei)\<close> the positions of the device's PENDING and QUEUED
  subscriptions are exactly \<open>1..N\<close>, each of them once, and the call returns
  \<open>N\<close>, the number of these subscriptions.
\<close>

theorem reorderDeviceQueue_dense:
  assumes "distinct (map sub_id subs)"
  shows "denselyPacked i (fst (reorderDeviceQueue i subs)) \<and>
         snd (reorderDeviceQueue i subs) = length (filter (inQueue i) (fst (reorderDeviceQueue i subs)))"
proof -
  define qs where "qs = sort_key (\<lambda>s. (- priority s, createdAt s)) (filter (inQueue i) subs)"
  define res where "res = reorderLoop 0 qs subs"
  define vs where "vs = map positionValue (filter (inQueue i) res)"
  have r: "reorderDeviceQueue i subs = (res, length qs)"
    by (simp add: reorderDeviceQueue_def qs_def res_def Let_def)
  have mq: "mset qs = mset (filter (inQueue i) subs)" by (simp add: qs_def)
  have sq: "set qs = set (filter (inQueue i) subs)" by (simp add: qs_def)
  have "distinct (map sub_id (filter (inQueue i) subs))"
    using assms by (simp add: distinct_map_filter)
  moreover have "mset (map sub_id qs) = mset (map sub_id (filter (inQueue i) subs))"
    using arg_cong[OF mq, of "image_mset sub_id"] by simp
  ultimately have dq: "distinct (map sub_id qs)"
    using mset_eq_imp_distinct_iff by blast
  have rest: "filter (\<lambda>s. inQueue i s \<and> sub_id s \<notin> sub_id ` set qs) subs = []"
    using sq by (auto simp: filter_empty_conv)
  have sub: "set qs \<subseteq> set subs" using sq by auto
  have allq: "\<forall>q \<in> set qs. inQueue i q" using sq by auto
  have pos: "mset (map queuePosition (filter (inQueue i) res)) =
             mset (map (\<lambda>j. Some (toString (int j + 1))) [0..<length qs])"
    using reorderLoop_positions[OF assms dq sub allq, of 0] by (simp add: res_def rest)
  define g where "g = (\<lambda>p. case p of None \<Rightarrow> None | Some q \<Rightarrow> parseInt q)"
  have a: "vs = map g (map queuePosition (filter (inQueue i) res))"
    by (simp add: vs_def g_def positionValue_def)
  have b: "mset vs = image_mset g (mset (map queuePosition (filter (inQueue i) res)))"
    unfolding a by (rule mset_map)
  have c: "image_mset g (mset (map (\<lambda>j. Some (toString (int j + 1))) [0..<length qs])) =
           mset (map g (map (\<lambda>j. Some (toString (int j + 1))) [0..<length qs]))"
    by (rule mset_map[symmetric])
  have d: "map g (map (\<lambda>j. Some (toString (int j + 1))) [0..<length qs]) =
           map (\<lambda>j. Some (int j + 1)) [0..<length qs]"
    by (simp add: g_def parseInt_toString)
  have mvs: "mset vs = mset (map (\<lambda>j. Some (int j + 1)) [0..<length qs])"
    unfolding b pos c d ..
  have len: "length vs = length qs"
    using arg_cong[OF mvs, of size] by simp
  have "distinct (map (\<lambda>j. Some (int j + 1)) [0..<length qs])"
    by (simp add: distinct_map inj_on_def)
  then have dvs: "distinct vs"
    using mset_eq_imp_distinct_iff[OF mvs] by simp
  have "[1..<Suc (length qs)] = map Suc [0..<length qs]"
    by (simp add: map_Suc_upt)
  then have "map (\<lambda>k. Some (int k)) [1..<Suc (length qs)] = map (\<lambda>j. Some (int j + 1)) [0..<length qs]"
    by (simp add: comp_def add.commute)
  then have svs: "set vs = set (map (\<lambda>k. Some (int k)) [1..<Suc (length vs)])"
    using mset_eq_setD[OF mvs] len by simp
  have "length (filter (inQueue i) res) = length qs"
    using len by (simp add: vs_def)
  then show ?thesis
    using dvs svs by (simp add: r denselyPacked_def vs_def Let_def)
qed

text \<open>
  The theorem at a concrete store: the store that the approval of the first of two
  pending requests leaves. One request remains in the queue and the reordering puts
  it at position 1.
\<close>

theorem reorderDeviceQueue_dense_witness:
  "distinct (map sub_id
      (subscriptions (snd (approveSubscription 1000 ''TXN-9'' 1 (Some ''ok'') False 7 twoPending)))) \<and>
   denselyPacked ''123456789012345''
     (fst (reorderDeviceQueue ''123456789012345''
        (subscriptions (snd (approveSubscription 1000 ''TXN-9'' 1 (Some ''ok'') False 7 twoPending))))) \<and>
   snd (reorderDeviceQueue ''123456789012345''
        (subscriptions (snd (approveSubscription 1000 ''TXN-9'' 1 (Some ''ok'') False 7 twoPending)))) = 1"
proof -
  let ?subs = "subscriptions (snd (approveSubscription 1000 ''TXN-9'' 1 (Some ''ok'') False 7 twoPending))"
  have h: "distinct (map sub_id ?subs)" by code_simp
  have n: "snd (reorderDeviceQueue ''123456789012345'' ?subs) = 1" by code_simp
  from reorderDeviceQueue_dense[OF h, of "''123456789012345''"] h n show ?thesis by simp
qed

text \<open>
  Claim C1 as stated fails. \<open>approveSubscription\<close> takes a subscription out of
  the queue and does not reorder: with two pending requests at the positions 1 and
  2, approving the first leaves a queue of one subscription whose position is 2.
\<close>

theorem approve_leaves_gap:
  "denselyPacked ''123456789012345'' (subscriptions twoPending) \<and>
   \<not> isl (fst (approveSubscription 1000 ''TXN-9'' 1 (Some ''ok'') False 7 twoPending)) \<and>
   \<not> denselyPacked ''123456789012345''
        (subscriptions (snd (approveSubscription 1000 ''TXN-9'' 1 (Some ''ok'') False 7 twoPending)))"
  by code_simp

text \<open>
  Claim C2 at a queue of ten. The ten pending requests hold the positions 1 to 10,
  so the maximum plus one is 11. The sort is on strings, where \<open>''9''\<close> is the
  greatest of them: \<open>getNextQueuePosition\<close> answers \<open>''10''\<close>, a position that is
  taken.
\<close>

theorem getNextQueuePosition_tenth:
  "denselyPacked ''123456789012345'' tenPending \<and>
   length (filter (inQueue ''123456789012345'') tenPending) = 10 \<and>
   getNextQueuePosition ''123456789012345'' tenPending = ''10''"
  by code_simp

text \<open>
  Claim C3 at two devices with a queue of two each. Moving the second request of the
  first device to position 1 should shift the first request of that device to
  position 2 and leave both queues a permutation of 1, 2. With the String path of
  the schema, the store refuses the \<open>updateMany\<close>, the handler forwards the error
  and no position changes. On a store that incremented the positions, the filter of
  the \<open>updateMany\<close>, which names no device, would also shift the first request of
  the second device, whose queue would then hold the position 2 twice.
\<close>

theorem updateQueuePosition_rejected:
  "denselyPacked ''123456789012345'' (subscriptions twoDevices) \<and>
   denselyPacked ''490154203237518'' (subscriptions twoDevices) \<and>
   updateQueuePosition updateManyInc 1000 ''TXN-9'' 2 (Some 1) 7 twoDevices =
     (Inl (MongoServerError ''Cannot increment with non-numeric argument: {queuePosition: 1}''),
      twoDevices) \<and>
   map queuePosition (filter (inQueue ''490154203237518'')
     (subscriptions (snd (updateQueuePosition updateManyIncNumeric 1000 ''TXN-9'' 2 (Some 1) 7
        twoDevices)))) = [Some ''2'', Some ''2''] \<and>
   \<not> denselyPacked ''490154203237518''
     (subscriptions (snd (updateQueuePosition updateManyIncNumeric 1000 ''TXN-9'' 2 (Some 1) 7
        twoDevices)))"
  by code_simp

section \<open>Active subscriptions\<close>

text \<open>
  The admin approval and the admin activation look for another ACTIVE subscription
  of the user or of the device before they write: in a store with unique ids they
  keep the ACTIVE subscriptions unique.
\<close>

lemma save_split:
  assumes "distinct (map sub_id (xs @ q # ys))" "sub_id d = sub_id q"
  shows "save d (xs @ q # ys) = xs @ d # ys"
proof -
  have "sub_id d \<notin> sub_id ` set xs" "sub_id d \<notin> sub_id ` set ys"
    using assms by auto
  then show ?thesis
    using save_other_ids[of d xs] save_other_ids[of d ys] assms(2)
    by (simp add: save_def)
qed

lemma save_activeUnique:
  assumes "activeUnique subs" "distinct (map sub_id subs)" "q \<in> set subs" "sub_id d = sub_id q"
    and "status d = ACTIVE \<longrightarrow>
           (\<forall>s \<in> set subs. status s = ACTIVE \<and> sub_id s \<noteq> sub_id q \<longrightarrow>
              user s \<noteq> user d \<and> imei s \<noteq> imei d)"
  shows "activeUnique (save d subs)"
proof -
  obtain xs ys where sp: "subs = xs @ q # ys"
    using assms(3) by (auto dest: split_list)
  have sv: "save d (xs @ q # ys) = xs @ d # ys"
    using save_split[of xs q ys d] assms(2,4) sp by simp
  have others: "\<forall>s \<in> set xs \<union> set ys. sub_id s \<noteq> sub_id q"
    using assms(2) sp by (auto simp: image_iff)
  show ?thesis
    using assms(1,5) others unfolding sp sv activeUnique_def Let_def
    by (auto simp: image_iff split: if_splits)
qed

lemma subscriptions_logTransactionUpdate [simp]:
  "subscriptions (snd (logTransactionUpdate now genId i ty stat adminId additional st)) =
     subscriptions st"
  by (simp add: logTransactionUpdate_def Let_def insertTransaction_def saveTransaction_def
      split: option.splits)

lemma findById_mem: "findById i subs = Some s \<Longrightarrow> s \<in> set subs \<and> sub_id s = i"
  by (auto simp: findById_def findOne_def dest: find_Some_mem)

lemma findOne_None: "findOne P xs = None \<Longrightarrow> x \<in> set xs \<Longrightarrow> \<not> P x"
  by (auto simp: findOne_def find_None_iff)

lemma populateUser_id: "populateUser st s = Some u \<Longrightarrow> usr_id u = user s"
  by (auto simp: populateUser_def findOne_def dest: find_Some_mem)

lemma approve_keeps_activeUnique:
  assumes "activeUnique (subscriptions st)" "distinct (map sub_id (subscriptions st))"
  shows "activeUnique
           (subscriptions (snd (approveSubscription now genId i comments activateNow adminId st)))"
proof (cases "isl (fst (approveSubscription now genId i comments activateNow adminId st))")
  case True
  then have "snd (approveSubscription now genId i comments activateNow adminId st) = st"
    by (auto simp: approveSubscription_def Let_def split: option.splits if_splits)
  then show ?thesis using assms(1) by simp
next
  case False
  then obtain s u where s: "findById i (subscriptions st) = Some s" "status s = PENDING"
      and u: "populateUser st s = Some u"
      and nu: "findOne (\<lambda>x. user x = usr_id u \<and> status x = ACTIVE \<and> sub_id x \<noteq> i)
                 (subscriptions st) = None"
      and ni: "findOne (\<lambda>x. imei x = imei s \<and> status x = ACTIVE \<and> sub_id x \<noteq> i)
                 (subscriptions st) = None"
    by (auto simp: approveSubscription_def Let_def split: option.splits if_splits)
  define d where "d = (if activateNow
                       then s\<lparr>status := ACTIVE, startDate := Some now,
                              endDate := Some (now + getSubscriptionDuration (plan s) * msPerDay)\<rparr>
                       else s\<lparr>status := APPROVED\<rparr>)
                      \<lparr>adminNotes := comments, reviewedBy := Some adminId, reviewedAt := Some now\<rparr>"
  have res: "subscriptions (snd (approveSubscription now genId i comments activateNow adminId st))
             = save d (subscriptions st)"
    using s u nu ni
    by (simp add: approveSubscription_def Let_def d_def saveSubscription_def)
  have mem: "s \<in> set (subscriptions st)" and sid: "sub_id s = i"
    using findById_mem[OF s(1)] by simp_all
  have did: "sub_id d = sub_id s" "user d = user s" "imei d = imei s"
    by (simp_all add: d_def)
  have free: "\<forall>x \<in> set (subscriptions st). status x = ACTIVE \<and> sub_id x \<noteq> sub_id s \<longrightarrow>
                user x \<noteq> user d \<and> imei x \<noteq> imei d"
    using findOne_None[OF nu] findOne_None[OF ni] populateUser_id[OF u] sid did by auto
  show ?thesis
    unfolding res
    by (rule save_activeUnique[OF assms mem did(1)]) (use free in simp)
qed

lemma activate_admin_keeps_activeUnique:
  assumes "activeUnique (subscriptions st)" "distinct (map sub_id (subscriptions st))"
  shows "activeUnique
           (subscriptions (snd (activateSubscription_admin now genId i comments adminId st)))"
proof (cases "isl (fst (activateSubscription_admin now genId i comments adminId st))")
  case True
  then have "snd (activateSubscription_admin now genId i comments adminId st) = st"
    by (auto simp: activateSubscription_admin_def Let_def split: option.splits if_splits)
  then show ?thesis using assms(1) by simp
next
  case False
  then obtain s u where s: "findById i (subscriptions st) = Some s" "status s = APPROVED"
      and u: "populateUser st s = Some u"
      and none: "findOne (\<lambda>x. ((user x = usr_id u \<and> status x = ACTIVE) \<or>
                                 (imei x = imei s \<and> status x = ACTIVE)) \<and> sub_id x \<noteq> i)
                 (subscriptions st) = None"
    by (auto simp: activateSubscription_admin_def Let_def split: option.splits if_splits)
  obtain d where res: "subscriptions (snd (activateSubscription_admin now genId i comments adminId st))
             = save d (subscriptions st)"
    and did: "sub_id d = sub_id s" "user d = user s" "imei d = imei s"
    using s u none
    by (cases comments)
      (auto simp: activateSubscription_admin_def Let_def saveSubscription_def)
  have mem: "s \<in> set (subscriptions st)" and sid: "sub_id s = i"
    using findById_mem[OF s(1)] by simp_all
  have free: "\<forall>x \<in> set (subscriptions st). status x = ACTIVE \<and> sub_id x \<noteq> sub_id s \<longrightarrow>
                user x \<noteq> user d \<and> imei x \<noteq> imei d"
    using findOne_None[OF none] populateUser_id[OF u] sid did by auto
  show ?thesis
    unfolding res
    by (rule save_activeUnique[OF assms mem did(1)]) (use free in simp)
qed

text \<open>
  Claim C4 at a renewal. A user holds an expired subscription and a later, active
  one for the same device. \<open>renewSubscription\<close> sets the expired one to ACTIVE
  without looking for another active subscription, and the user and the device have
  two of them.
\<close>

theorem renew_second_active:
  "activeUnique (subscriptions expiredAndActive) \<and>
   \<not> isl (fst (renewSubscription markCompleted 1000 ''TXN-9'' 1 1 expiredAndActive)) \<and>
   \<not> activeUnique
       (subscriptions (snd (renewSubscription markCompleted 1000 ''TXN-9'' 1 1 expiredAndActive)))"
  by code_simp

section \<open>The ledger\<close>

lemma newObjectId_fresh: "t \<in> set txs \<Longrightarrow> tx_id t < newObjectId txs"
  by (induction txs) (auto simp: newObjectId_def)

lemma findOne_first: "findOne (\<lambda>_. True) xs = (case xs of [] \<Rightarrow> None | x # _ \<Rightarrow> Some x)"
  by (cases xs) (simp_all add: findOne_def)

lemma latest_mem:
  assumes "findOne (\<lambda>_. True) (sortDesc k (filter P xs)) = Some x"
  shows "x \<in> set xs \<and> P x"
proof -
  have "x \<in> set (sortDesc k (filter P xs))"
    using assms by (auto simp: findOne_first split: list.splits)
  then show ?thesis by (simp add: sortDesc_def)
qed

lemma latest_exists:
  assumes "\<exists>x \<in> set xs. P x"
  shows "findOne (\<lambda>_. True) (sortDesc k (filter P xs)) \<noteq> None"
proof -
  have "set (sortDesc k (filter P xs)) \<noteq> {}"
    using assms by (auto simp: sortDesc_def)
  then show ?thesis
    by (auto simp: findOne_first split: list.splits)
qed

lemma logTransactionUpdate_logged:
  "logged i ty st (snd (logTransactionUpdate now genId i ty stat adminId additional st))"
proof (cases "hasTransaction i st")
  case False
  then have "filter (\<lambda>t. tx_subscription t = i) (transactions st) = []"
    by (auto simp: hasTransaction_def filter_empty_conv)
  then show ?thesis
    using False by (simp add: logged_def logTransactionUpdate_def sortDesc_def findOne_def)
next
  case True
  then obtain ex where ex: "findOne (\<lambda>_. True)
       (sortDesc tx_createdAt (filter (\<lambda>t. tx_subscription t = i) (transactions st))) = Some ex"
    using latest_exists[of "transactions st" "\<lambda>t. tx_subscription t = i" tx_createdAt]
    by (auto simp: hasTransaction_def)
  have mem: "ex \<in> set (transactions st)" using latest_mem[OF ex] by simp
  define n where "n = newObjectId (transactions st)"
  have fresh: "tx_id t \<noteq> n" if "t \<in> set (transactions st)" for t
    using newObjectId_fresh[OF that] by (simp add: n_def)
  define f where "f = (\<lambda>x. if tx_id x = tx_id ex
                  then ex\<lparr>relatedTransactions := relatedTransactions ex @ [n]\<rparr> else x)"
  have ids: "map tx_id (map f (transactions st)) = map tx_id (transactions st)"
    by (simp add: f_def comp_def cong: map_cong)
  have rel: "\<exists>p \<in> set (map f (transactions st)). tx_id p = tx_id ex \<and>
               relatedTransactions p = relatedTransactions ex @ [n]"
  proof -
    have "f ex \<in> set (map f (transactions st))" using mem by simp
    moreover have "tx_id (f ex) = tx_id ex \<and>
        relatedTransactions (f ex) = relatedTransactions ex @ [n]"
      by (simp add: f_def)
    ultimately show ?thesis by blast
  qed
  define newTx where "newTx = fst (logTransactionUpdate now genId i ty stat adminId additional st)"
  obtain t where t: "newTx = Some t" "tx_id t = n" "tx_subscription t = i" "tx_type t = ty"
      "previousTransaction t = Some (tx_id ex)"
    by (simp add: newTx_def logTransactionUpdate_def ex Let_def n_def)
  have res: "transactions (snd (logTransactionUpdate now genId i ty stat adminId additional st)) =
             map f (transactions st) @ [t]"
    using t fresh[OF mem]
    by (simp add: newTx_def logTransactionUpdate_def ex Let_def insertTransaction_def
        saveTransaction_def n_def[symmetric] f_def)
  have nin: "n \<notin> set (map tx_id (transactions st))"
    using fresh by auto
  have "appendedLinked i ty (transactions st) (map f (transactions st) @ [t])"
    unfolding appendedLinked_def ex
    using ids rel nin t by (simp del: set_map map_map)
  then show ?thesis
    using True by (simp add: logged_def res)
qed

lemma hasTransaction_saveSubscription [simp]:
  "hasTransaction i (saveSubscription d st) = hasTransaction i st"
  by (simp add: hasTransaction_def)

lemma logged_saveSubscription:
  "logged i ty (saveSubscription d st) st' \<Longrightarrow> logged i ty st st'"
  by (auto simp: logged_def split: if_splits)

lemma logTransactionUpdate_after_save:
  "logged i ty st
     (snd (logTransactionUpdate now genId i ty stat adminId additional (saveSubscription d st)))"
  by (rule logged_saveSubscription) (rule logTransactionUpdate_logged)

text \<open>
  Claim C5, as the code has it. When an admin approves, rejects or activates a
  subscription and the handler answers, the ledger gets one new entry for the
  subscription, linked to the latest earlier entry through \<open>previousTransaction\<close>
  and \<open>relatedTransactions\<close>, provided the subscription has an earlier entry; when
  it has none, the ledger stays as it was.
\<close>

theorem admin_mutations_logged:
  "(\<not> isl (fst (approveSubscription now genId i comments activateNow adminId st)) \<longrightarrow>
      logged i (if activateNow then ''SUBSCRIPTION_ACTIVATED'' else ''SUBSCRIPTION_APPROVED'') st
        (snd (approveSubscription now genId i comments activateNow adminId st))) \<and>
   (\<not> isl (fst (rejectSubscription now genId i reason comments adminId st)) \<longrightarrow>
      logged i ''SUBSCRIPTION_REJECTED'' st
        (snd (rejectSubscription now genId i reason comments adminId st))) \<and>
   (\<not> isl (fst (activateSubscription_admin now genId i comments adminId st)) \<longrightarrow>
      logged i ''SUBSCRIPTION_ACTIVATED'' st
        (snd (activateSubscription_admin now genId i comments adminId st)))"
proof (intro conjI impI)
  assume "\<not> isl (fst (approveSubscription now genId i comments activateNow adminId st))"
  then show "logged i (if activateNow then ''SUBSCRIPTION_ACTIVATED'' else ''SUBSCRIPTION_APPROVED'') st
        (snd (approveSubscription now genId i comments activateNow adminId st))"
    by (auto simp: approveSubscription_def Let_def logTransactionUpdate_after_save
        split: option.splits if_splits)
next
  assume "\<not> isl (fst (rejectSubscription now genId i reason comments adminId st))"
  then show "logged i ''SUBSCRIPTION_REJECTED'' st
        (snd (rejectSubscription now genId i reason comments adminId st))"
    by (auto simp: rejectSubscription_def Let_def logTransactionUpdate_after_save
        split: option.splits if_splits)
next
  assume "\<not> isl (fst (activateSubscription_admin now genId i comments adminId st))"
  then show "logged i ''SUBSCRIPTION_ACTIVATED'' st
        (snd (activateSubscription_admin now genId i comments adminId st))"
    by (auto simp: activateSubscription_admin_def Let_def logTransactionUpdate_after_save
        split: option.splits if_splits)
qed

text \<open>
  The theorem at a concrete store where each request has the ledger entry of its
  creation: the approval and the rejection of the first request, and the activation
  that follows the approval, each append a linked entry.
\<close>

theorem admin_mutations_logged_witness:
  "hasTransaction 1 twoPendingLogged \<and>
   appendedLinked 1 ''SUBSCRIPTION_APPROVED'' (transactions twoPendingLogged)
     (transactions (snd (approveSubscription 1000 ''TXN-9'' 1 (Some ''ok'') False 7 twoPendingLogged))) \<and>
   appendedLinked 1 ''SUBSCRIPTION_REJECTED'' (transactions twoPendingLogged)
     (transactions (snd (rejectSubscription 1000 ''TXN-9'' 1 (Some ''duplicate'') (Some ''ok'') 7 twoPendingLogged))) \<and>
   appendedLinked 1 ''SUBSCRIPTION_ACTIVATED''
     (transactions (snd (approveSubscription 1000 ''TXN-9'' 1 (Some ''ok'') False 7 twoPendingLogged)))
     (transactions (snd (activateSubscription_admin 2000 ''TXN-10'' 1 None 7
        (snd (approveSubscription 1000 ''TXN-9'' 1 (Some ''ok'') False 7 twoPendingLogged)))))"
proof -
  let ?approved = "snd (approveSubscription 1000 ''TXN-9'' 1 (Some ''ok'') False 7 twoPendingLogged)"
  have p: "hasTransaction 1 twoPendingLogged" "hasTransaction 1 ?approved"
    by code_simp+
  have a: "\<not> isl (fst (approveSubscription 1000 ''TXN-9'' 1 (Some ''ok'') False 7 twoPendingLogged))"
    by code_simp
  have r: "\<not> isl (fst (rejectSubscription 1000 ''TXN-9'' 1 (Some ''duplicate'') (Some ''ok'') 7 twoPendingLogged))"
    by code_simp
  have c: "\<not> isl (fst (activateSubscription_admin 2000 ''TXN-10'' 1 None 7 ?approved))"
    by code_simp
  from admin_mutations_logged[where now = 1000 and genId = "''TXN-9''" and i = 1
           and comments = "Some ''ok''" and activateNow = False and adminId = 7
           and st = twoPendingLogged and reason = "Some ''duplicate''"]
       admin_mutations_logged[where now = 2000 and genId = "''TXN-10''" and i = 1
           and comments = None and activateNow = False and adminId = 7
           and st = ?approved and reason = None]
       p a r c
  show ?thesis by (simp add: logged_def)
qed

text \<open>
  Claim C5 as stated fails for a subscription without a ledger entry: the approval
  succeeds, the subscription is APPROVED, and the ledger is still empty.
\<close>

theorem approve_without_ledger_entry:
  "\<not> hasTransaction 1 twoPending \<and>
   \<not> isl (fst (approveSubscription 1000 ''TXN-9'' 1 (Some ''ok'') False 7 twoPending)) \<and>
   status (the (findById 1 (subscriptions
      (snd (approveSubscription 1000 ''TXN-9'' 1 (Some ''ok'') False 7 twoPending))))) = APPROVED \<and>
   transactions (snd (approveSubscription 1000 ''TXN-9'' 1 (Some ''ok'') False 7 twoPending)) = []"
  by code_simp

section \<open>Upgrade and renewal\<close>



text \<open>
  Claim C6 as stated fails. The handler compares with the stored price, not with
  the price of the current plan: for a full-suite-premium subscription stored with
  the schema's default price 0, the upgrade to mobile-v4-basic is not refused,
  although 29.99 is less than 149.99, and 29.99 is charged. And the amount of an
  upgrade is a double difference: from mobile-v4-basic to full-suite-premium it is
  not 149.99 - 29.99 = 120.
\<close>

theorem upgrade_against_stored_price:
  "plan (the (findById 1 (subscriptions premiumAtDefaultPrice))) = ''full-suite-premium'' \<and>
   jsLessEq (numberOf (getSubscriptionPrice ''mobile-v4-basic''))
     (numberOf (getSubscriptionPrice ''full-suite-premium'')) \<and>
   \<not> isl (fst (upgradeSubscription markCompleted 1000 ''TXN-9'' 1 ''mobile-v4-basic'' 1
      premiumAtDefaultPrice)) \<and>
   proratedAmount (projr (fst (upgradeSubscription markCompleted 1000 ''TXN-9'' 1
      ''mobile-v4-basic'' 1 premiumAtDefaultPrice))) = roundToDouble 29.99 \<and>
   \<not> isl (fst (upgradeSubscription markCompleted 1000 ''TXN-9'' 1 ''full-suite-premium'' 1
      (oneActive ''mobile-v4-basic''))) \<and>
   proratedAmount (projr (fst (upgradeSubscription markCompleted 1000 ''TXN-9'' 1
      ''full-suite-premium'' 1 (oneActive ''mobile-v4-basic'')))) \<noteq> Finite (149.99 - 29.99)"
  by code_simp



section \<open>Bulk operations\<close>

lemma bulkApproveOne_id: "br_id (fst (bulkApproveOne now genId data adminId i st)) = i"
  by (simp add: bulkApproveOne_def failedResult_def Let_def split: option.splits)

lemma bulkRejectOne_id: "br_id (fst (bulkRejectOne now genId d adminId i st)) = i"
  by (simp add: bulkRejectOne_def failedResult_def Let_def split: option.splits)

lemma bulkApproveOne_failure:
  "\<not> br_success (fst (bulkApproveOne now genId data adminId i st)) \<Longrightarrow>
     snd (bulkApproveOne now genId data adminId i st) = st"
  by (auto simp: bulkApproveOne_def failedResult_def Let_def split: option.splits if_splits)

lemma bulkRejectOne_failure:
  "\<not> br_success (fst (bulkRejectOne now genId d adminId i st)) \<Longrightarrow>
     snd (bulkRejectOne now genId d adminId i st) = st"
  by (auto simp: bulkRejectOne_def failedResult_def Let_def split: option.splits if_splits)

lemma forEachId_append:
  "forEachId f (xs @ ys) st =
     (fst (forEachId f xs st) @ fst (forEachId f ys (snd (forEachId f xs st))),
      snd (forEachId f ys (snd (forEachId f xs st))))"
  by (induction xs arbitrary: st) (simp_all add: split_beta Let_def)

lemma forEachId_length: "length (fst (forEachId f ids st)) = length ids"
  by (induction ids arbitrary: st) (simp_all add: split_beta Let_def)

lemma forEachId_ids:
  "(\<And>i st. br_id (fst (f i st)) = i) \<Longrightarrow> map br_id (fst (forEachId f ids st)) = ids"
  by (induction ids arbitrary: st) (simp_all add: split_beta Let_def)

lemma forEachId_isolated:
  assumes fail: "\<And>i st. \<not> br_success (fst (f i st)) \<Longrightarrow> snd (f i st) = st"
    and "\<not> br_success (fst (forEachId f (xs @ i # ys) st) ! length xs)"
  shows "snd (forEachId f (xs @ ys) st) = snd (forEachId f (xs @ i # ys) st) \<and>
         fst (forEachId f (xs @ ys) st) =
           take (length xs) (fst (forEachId f (xs @ i # ys) st)) @
           drop (Suc (length xs)) (fst (forEachId f (xs @ i # ys) st))"
proof -
  let ?st1 = "snd (forEachId f xs st)"
  have at: "fst (forEachId f (xs @ i # ys) st) ! length xs = fst (f i ?st1)"
    by (simp add: forEachId_append[of f xs "i # ys"] nth_append forEachId_length split_beta Let_def)
  then have same: "snd (f i ?st1) = ?st1"
    using assms(2) fail by simp
  show ?thesis
    by (simp add: forEachId_append[of f xs "i # ys"] forEachId_append[of f xs ys]
        forEachId_length split_beta Let_def same)
qed

text \<open>
  Claim C8, as the code has it. For the actions \<open>approve\<close> and \<open>reject\<close>, the
  answer has one result per listed id, in the order of the list, and an id that
  fails writes nothing: leaving the failed id out of the list gives the same results
  for the other ids and the same store.
\<close>

theorem bulk_failure_isolated:
  assumes "action = ''approve'' \<or> action = ''reject''"
    and "fst (bulkUpdateSubscriptions now genId (xs @ i # ys) action data adminId st) = Inr r"
    and "\<not> br_success (bk_results r ! length xs)"
    and "xs @ ys \<noteq> []"
  shows "map br_id (bk_results r) = xs @ i # ys \<and>
         (\<exists>r'. bulkUpdateSubscriptions now genId (xs @ ys) action data adminId st =
                 (Inr r', snd (bulkUpdateSubscriptions now genId (xs @ i # ys) action data adminId st)) \<and>
               bk_results r' = take (length xs) (bk_results r) @ drop (Suc (length xs)) (bk_results r))"
proof -
  from assms(1) show ?thesis
  proof
    assume a: "action = ''approve''"
    let ?f = "bulkApproveOne now genId data adminId"
    have r: "bk_results r = fst (forEachId ?f (xs @ i # ys) st)"
      using assms(2) by (auto simp: bulkUpdateSubscriptions_def a bulkResponseOf_def split_beta)
    have iso: "snd (forEachId ?f (xs @ ys) st) = snd (forEachId ?f (xs @ i # ys) st) \<and>
         fst (forEachId ?f (xs @ ys) st) =
           take (length xs) (fst (forEachId ?f (xs @ i # ys) st)) @
           drop (Suc (length xs)) (fst (forEachId ?f (xs @ i # ys) st))"
      using forEachId_isolated[of ?f xs i ys st] bulkApproveOne_failure assms(3) r by simp
    have ids: "map br_id (bk_results r) = xs @ i # ys"
      unfolding r by (rule forEachId_ids) (rule bulkApproveOne_id)
    show ?thesis
      using ids iso assms(4) r
      by (simp add: bulkUpdateSubscriptions_def a bulkResponseOf_def split_beta)
  next
    assume a: "action = ''reject''"
    from assms(2) obtain d where d: "data = Some d" "\<not> missing (bd_reason d)"
      by (auto simp: bulkUpdateSubscriptions_def a split: option.splits if_splits)
    let ?f = "bulkRejectOne now genId d adminId"
    have r: "bk_results r = fst (forEachId ?f (xs @ i # ys) st)"
      using assms(2) d by (auto simp: bulkUpdateSubscriptions_def a bulkResponseOf_def split_beta)
    have iso: "snd (forEachId ?f (xs @ ys) st) = snd (forEachId ?f (xs @ i # ys) st) \<and>
         fst (forEachId ?f (xs @ ys) st) =
           take (length xs) (fst (forEachId ?f (xs @ i # ys) st)) @
           drop (Suc (length xs)) (fst (forEachId ?f (xs @ i # ys) st))"
      using forEachId_isolated[of ?f xs i ys st] bulkRejectOne_failure assms(3) r by simp
    have ids: "map br_id (bk_results r) = xs @ i # ys"
      unfolding r by (rule forEachId_ids) (rule bulkRejectOne_id)
    show ?thesis
      using ids iso assms(4) r d
      by (simp add: bulkUpdateSubscriptions_def a bulkResponseOf_def split_beta)
  qed
qed

text \<open>
  The theorem at the example of the spec: of three listed requests the second is
  cancelled already. The first and the third are approved, the second gets a failed
  result, and the request without the second id gives the same store.
\<close>

theorem bulk_failure_isolated_witness:
  "(\<exists>r r'. fst (bulkUpdateSubscriptions 1000 exampleGenId [1, 2, 3] ''approve''
            (Some \<lparr>bd_activateNow = False, bd_comments = None, bd_reason = None\<rparr>) 7
            secondCancelled) = Inr r \<and>
        map br_id (bk_results r) = [1, 2, 3] \<and>
        map br_success (bk_results r) = [True, False, True] \<and>
        bulkUpdateSubscriptions 1000 exampleGenId [1, 3] ''approve''
            (Some \<lparr>bd_activateNow = False, bd_comments = None, bd_reason = None\<rparr>) 7
            secondCancelled
          = (Inr r', snd (bulkUpdateSubscriptions 1000 exampleGenId [1, 2, 3] ''approve''
               (Some \<lparr>bd_activateNow = False, bd_comments = None, bd_reason = None\<rparr>) 7
               secondCancelled)) \<and>
        map br_success (bk_results r') = [True, True])"
proof -
  let ?d = "Some \<lparr>bd_activateNow = False, bd_comments = None, bd_reason = None\<rparr>"
  let ?R = "bulkUpdateSubscriptions 1000 exampleGenId ([1] @ 2 # [3]) ''approve'' ?d 7 secondCancelled"
  obtain r where r: "fst ?R = Inr r"
    by (cases "fst ?R") (simp_all add: bulkUpdateSubscriptions_def split_beta)
  have s: "map br_success (bk_results (projr (fst ?R))) = [True, False, True]"
    by code_simp
  then have s': "map br_success (bk_results r) = [True, False, True]"
    using r by simp
  then have f: "\<not> br_success (bk_results r ! length [1::nat])"
    by (cases "bk_results r") (auto simp: nth_Cons')
  from bulk_failure_isolated[of "''approve''" 1000 exampleGenId "[1]" 2 "[3]" ?d 7 secondCancelled r, OF _ r f]
  obtain r' where r': "map br_id (bk_results r) = [1, 2, 3]"
      "bulkUpdateSubscriptions 1000 exampleGenId [1, 3] ''approve'' ?d 7 secondCancelled = (Inr r', snd ?R)"
      "bk_results r' = take 1 (bk_results r) @ drop 2 (bk_results r)"
    by auto
  have "map br_success (bk_results r') = [True, True]"
    using r'(3) s' by (cases "bk_results r") (auto simp: drop_Cons' take_map[symmetric] split: if_splits)
  then show ?thesis using r r' s' by auto
qed

text \<open>
  Claim C8 as stated fails for the actions \<open>under_review\<close> and
  \<open>update_priority\<close>: the handler has no case for them, refuses the request and
  gives no result per id.
\<close>

theorem bulk_unknown_actions:
  "bulkUpdateSubscriptions 1000 exampleGenId [1, 2, 3] ''under_review''
     (Some \<lparr>bd_activateNow = False, bd_comments = None, bd_reason = None\<rparr>) 7 secondCancelled
     = (Inl (CustomError 400 ''Invalid action specified''), secondCancelled) \<and>
   bulkUpdateSubscriptions 1000 exampleGenId [1, 2, 3] ''update_priority''
     (Some \<lparr>bd_activateNow = False, bd_comments = None, bd_reason = None\<rparr>) 7 secondCancelled
     = (Inl (CustomError 400 ''Invalid action specified''), secondCancelled)"
  by code_simp

section \<open>Activation with a one-time code\<close>

lemma find_map_invariant:
  "(\<And>x. P (f x) = P x) \<Longrightarrow> find P (map f xs) = map_option f (find P xs)"
  by (induction xs) auto

lemma findById_sub_id: "findById i subs = Some s \<Longrightarrow> sub_id s = i"
  by (auto simp: findById_def findOne_def dest: find_Some_mem)

text \<open>
  Claim C9. For a subscription that is not QUEUED the activation fails and the store
  stays as it is. For a QUEUED subscription of the caller, with the IMEI and a code
  in the request and the caller's device for that IMEI in the store: if the code
  verifies with window 2, the handler answers, the stored subscription is ACTIVE and
  the device is onboarded; if the code does not verify, the handler fails with the
  400 "Invalid OTP" and the store stays as it is.
\<close>

theorem otp_activation:
  assumes "findById sid (subscriptions st) = Some s"
  shows "(status s \<noteq> QUEUED \<longrightarrow>
            (\<exists>e. activateSubscription totpVerify now (Some sid) im code uid st = (Inl e, st))) \<and>
         (status s = QUEUED \<and> user s = uid \<and> imei s \<noteq> [] \<and> c \<noteq> [] \<and>
          findOne (\<lambda>d. dev_user d = Some uid \<and> dev_imei d = imei s) (devices st) = Some dev \<longrightarrow>
            (totpVerify (totpSecret dev) c 2 \<longrightarrow>
               (\<exists>r st' s' dev'.
                  activateSubscription totpVerify now (Some sid) (Some (imei s)) (Some c) uid st
                    = (Inr r, st') \<and>
                  findById sid (subscriptions st') = Some s' \<and> status s' = ACTIVE \<and>
                  findOne (\<lambda>d. dev_user d = Some uid \<and> dev_imei d = imei s) (devices st')
                    = Some dev' \<and> isOnboarded dev')) \<and>
            (\<not> totpVerify (totpSecret dev) c 2 \<longrightarrow>
               activateSubscription totpVerify now (Some sid) (Some (imei s)) (Some c) uid st
                 = (Inl (CustomError 400 ''Invalid OTP''), st)))"
proof (intro conjI impI)
  assume "status s \<noteq> QUEUED"
  then show "\<exists>e. activateSubscription totpVerify now (Some sid) im code uid st = (Inl e, st)"
    using assms by (auto simp: activateSubscription_def split: option.splits)
next
  assume h: "status s = QUEUED \<and> user s = uid \<and> imei s \<noteq> [] \<and> c \<noteq> [] \<and>
          findOne (\<lambda>d. dev_user d = Some uid \<and> dev_imei d = imei s) (devices st) = Some dev"
  {
    assume v: "totpVerify (totpSecret dev) c 2"
    let ?f = "\<lambda>x. if sub_id x = sid
                then x\<lparr>status := ACTIVE, startDate := Some now,
                       endDate := Some (now + 30 * msPerDay)\<rparr> else x"
    let ?g = "\<lambda>d. if dev_id d = dev_id dev then d\<lparr>isOnboarded := True\<rparr> else d"
    have 1: "findById sid (map ?f (subscriptions st)) = Some (?f s)"
      using assms find_map_invariant[of "\<lambda>x. sub_id x = sid" ?f "subscriptions st"]
      by (simp add: findById_def findOne_def)
    have 2: "findOne (\<lambda>d. dev_user d = Some uid \<and> dev_imei d = imei s) (map ?g (devices st))
             = Some (?g dev)"
      using h find_map_invariant[of "\<lambda>d. dev_user d = Some uid \<and> dev_imei d = imei s" ?g "devices st"]
      by (simp add: findOne_def)
    show "\<exists>r st' s' dev'.
                  activateSubscription totpVerify now (Some sid) (Some (imei s)) (Some c) uid st
                    = (Inr r, st') \<and>
                  findById sid (subscriptions st') = Some s' \<and> status s' = ACTIVE \<and>
                  findOne (\<lambda>d. dev_user d = Some uid \<and> dev_imei d = imei s) (devices st')
                    = Some dev' \<and> isOnboarded dev'"
      using assms h v 1 2 findById_sub_id[OF assms]
      by (simp add: activateSubscription_def subscriptionType_def Let_def cong: if_cong)
  }
  {
    assume "\<not> totpVerify (totpSecret dev) c 2"
    then show "activateSubscription totpVerify now (Some sid) (Some (imei s)) (Some c) uid st
                 = (Inl (CustomError 400 ''Invalid OTP''), st)"
      using assms h by (simp add: activateSubscription_def)
  }
qed

text \<open>
  The theorem at a concrete store, for a pending subscription, for a queued one with
  the right code and for a queued one with a wrong code.
\<close>

theorem otp_activation_witness:
  "(\<exists>e. activateSubscription (acceptsOnly ''123456'') 1000 (Some 1) (Some ''123456789012345'')
           (Some ''123456'') 1 (queuedOn ''mobile-v4-basic'' PENDING)
         = (Inl e, queuedOn ''mobile-v4-basic'' PENDING)) \<and>
   (\<exists>r st' s' dev'.
       activateSubscription (acceptsOnly ''123456'') 1000 (Some 1) (Some ''123456789012345'')
           (Some ''123456'') 1 (queuedOn ''mobile-v4-basic'' QUEUED) = (Inr r, st') \<and>
       findById 1 (subscriptions st') = Some s' \<and> status s' = ACTIVE \<and>
       findOne (\<lambda>d. dev_user d = Some 1 \<and> dev_imei d = ''123456789012345'') (devices st')
         = Some dev' \<and> isOnboarded dev') \<and>
   activateSubscription (acceptsOnly ''123456'') 1000 (Some 1) (Some ''123456789012345'')
       (Some ''000000'') 1 (queuedOn ''mobile-v4-basic'' QUEUED)
     = (Inl (CustomError 400 ''Invalid OTP''), queuedOn ''mobile-v4-basic'' QUEUED)"
proof -
  let ?s = "\<lambda>stat. (exampleSubscription 1 1 ''123456789012345'' stat (Some ''1''))
                         \<lparr>plan := ''mobile-v4-basic'',
                          price := numberOf (getSubscriptionPrice ''mobile-v4-basic'')\<rparr>"
  let ?dev = "\<lparr>dev_id = 1, dev_user = Some 1, dev_imei = ''123456789012345'',
               totpSecret = ''JBSWY3DPEHPK3PXP'', deviceName = ''Phone'', isOnboarded = False\<rparr>"
  have f: "findById 1 (subscriptions (queuedOn ''mobile-v4-basic'' stat)) = Some (?s stat)" for stat
    by (simp add: findById_def findOne_def queuedOn_def exampleSubscription_def)
  have st: "status (?s stat) = stat" "user (?s stat) = 1" "imei (?s stat) = ''123456789012345''"
    for stat
    by (simp_all add: exampleSubscription_def)
  have d: "findOne (\<lambda>d. dev_user d = Some 1 \<and> dev_imei d = imei (?s QUEUED))
             (devices (queuedOn ''mobile-v4-basic'' QUEUED)) = Some ?dev"
    by (simp add: findOne_def queuedOn_def exampleSubscription_def)
  have v: "acceptsOnly ''123456'' (totpSecret ?dev) ''123456'' 2"
    "\<not> acceptsOnly ''123456'' (totpSecret ?dev) ''000000'' 2"
    by (simp_all add: acceptsOnly_def)
  from otp_activation[OF f, of PENDING "acceptsOnly ''123456''" 1000 "Some ''123456789012345''"
         "Some ''123456''" 1]
       otp_activation[OF f, of QUEUED "acceptsOnly ''123456''" 1000 _ _ 1 "''123456''" ?dev]
       otp_activation[OF f, of QUEUED "acceptsOnly ''123456''" 1000 _ _ 1 "''000000''" ?dev]
       st d v
  show ?thesis by simp
qed

text \<open>
  Claim C10. Whenever the activation with a one-time code succeeds, the stored
  subscription keeps its plan, starts now and ends 30 days from now, whatever the
  plan is.
\<close>

theorem thirty_days_after_otp:
  assumes "findById sid (subscriptions st) = Some s"
    and "fst (activateSubscription totpVerify now (Some sid) im code uid st) = Inr r"
  shows "\<exists>s'. findById sid
               (subscriptions (snd (activateSubscription totpVerify now (Some sid) im code uid st)))
               = Some s' \<and>
              plan s' = plan s \<and> status s' = ACTIVE \<and> startDate s' = Some now \<and>
              endDate s' = Some (now + 30 * msPerDay)"
proof -
  let ?f = "\<lambda>x. if sub_id x = sid
              then x\<lparr>status := ACTIVE, startDate := Some now,
                     endDate := Some (now + 30 * msPerDay)\<rparr> else x"
  have 1: "findById sid (map ?f (subscriptions st)) = Some (?f s)"
    using assms(1) find_map_invariant[of "\<lambda>x. sub_id x = sid" ?f "subscriptions st"]
    by (simp add: findById_def findOne_def)
  show ?thesis
    using assms 1 findById_sub_id[OF assms(1)]
    by (auto simp: activateSubscription_def subscriptionType_def Let_def
        split: option.splits if_splits cong: if_cong)
qed

text \<open>
  The theorem at a subscription of the plan full-suite-premium, whose duration in
  the table is 90 days: the activation gives it 30 days.
\<close>

theorem thirty_days_after_otp_witness:
  "getSubscriptionDuration ''full-suite-premium'' = 90 \<and>
   (\<exists>s'. findById 1 (subscriptions (snd (activateSubscription (acceptsOnly ''123456'') 1000 (Some 1)
             (Some ''123456789012345'') (Some ''123456'') 1 (queuedOn ''full-suite-premium'' QUEUED))))
           = Some s' \<and>
         plan s' = ''full-suite-premium'' \<and> status s' = ACTIVE \<and> startDate s' = Some 1000 \<and>
         endDate s' = Some (1000 + 30 * msPerDay))"
proof -
  let ?s = "(exampleSubscription 1 1 ''123456789012345'' QUEUED (Some ''1''))
                         \<lparr>plan := ''full-suite-premium'',
                          price := numberOf (getSubscriptionPrice ''full-suite-premium'')\<rparr>"
  have f: "findById 1 (subscriptions (queuedOn ''full-suite-premium'' QUEUED)) = Some ?s"
    by (simp add: findById_def findOne_def queuedOn_def exampleSubscription_def)
  have ok: "\<not> isl (fst (activateSubscription (acceptsOnly ''123456'') 1000 (Some 1)
             (Some ''123456789012345'') (Some ''123456'') 1 (queuedOn ''full-suite-premium'' QUEUED)))"
    by code_simp
  then obtain r where r: "fst (activateSubscription (acceptsOnly ''123456'') 1000 (Some 1)
             (Some ''123456789012345'') (Some ''123456'') 1 (queuedOn ''full-suite-premium'' QUEUED)) = Inr r"
    by (metis sum.collapse(2))
  have p: "plan ?s = ''full-suite-premium''" by simp
  have d: "getSubscriptionDuration ''full-suite-premium'' = 90"
    by (simp add: getSubscriptionDuration_def SUBSCRIPTION_TYPES_def)
  from thirty_days_after_otp[OF f r] p d show ?thesis by simp
qed

end
